theory Spec2Isabelle
  imports Main
begin

section \<open>JavaScript values and the coercions the pipeline relies on\<close>

text \<open>
  Every payload is an arbitrary JSON document (\<^verbatim>\<open>orderData: any\<close>), so the embedding
  works on JSON values with JavaScript's dynamic coercions written out.

  \<^item> Strings are byte sequences (UTF-8). White space is recognised in its UTF-8
    encoding; lower-casing acts on ASCII letters, which is all that a comparison with
    the literal \<^verbatim>\<open>delivery\<close> can see.
  \<^item> A number is carried as its canonical rendering, the text that \<^verbatim>\<open>String(n)\<close>
    returns (\<open>''555''\<close>, \<open>''25.5''\<close>, \<open>''0''\<close>). The source only ever tests a number
    for truthiness, converts it to a string, or hands it to \<^verbatim>\<open>parseFloat\<close>, which
    itself starts by converting to a string.
  \<^item> An object is the list of its properties in insertion order; a property read
    returns the first binding of the name.
  \<^item> \<open>JUndefined\<close> is the result of reading a property that is not there.
\<close>

datatype json =
    JUndefined
  | JNull
  | JBool bool
  | JNum string
  | JStr string
  | JArr "json list"
  | JObj "(string \<times> json) list"

text \<open>Truthiness: \<^verbatim>\<open>undefined\<close>, \<^verbatim>\<open>null\<close>, \<^verbatim>\<open>false\<close>, \<^verbatim>\<open>0\<close>, \<^verbatim>\<open>NaN\<close> and \<^verbatim>\<open>''\<close> are falsy.\<close>

fun truthy :: "json \<Rightarrow> bool" where
  "truthy JUndefined = False"
| "truthy JNull = False"
| "truthy (JBool b) = b"
| "truthy (JNum n) = (n \<noteq> ''0'' \<and> n \<noteq> ''NaN'')"
| "truthy (JStr s) = (s \<noteq> [])"
| "truthy (JArr xs) = True"
| "truthy (JObj kvs) = True"

text \<open>\<^verbatim>\<open>a || b\<close>\<close>

definition jor :: "json \<Rightarrow> json \<Rightarrow> json" where
  "jor a b = (if truthy a then a else b)"

fun nullish :: "json \<Rightarrow> bool" where
  "nullish JUndefined = True"
| "nullish JNull = True"
| "nullish v = False"

text \<open>
  \<^verbatim>\<open>v.k\<close> on a value that is not nullish. None of the names the source reads is a
  built-in property of a string, number, boolean or array, so only objects answer.
\<close>

fun field :: "json \<Rightarrow> string \<Rightarrow> json" where
  "field (JObj kvs) k = (case map_of kvs k of Some v \<Rightarrow> v | None \<Rightarrow> JUndefined)"
| "field v k = JUndefined"

text \<open>\<^verbatim>\<open>v?.k\<close>\<close>

definition ofield :: "json \<Rightarrow> string \<Rightarrow> json" where
  "ofield v k = (if nullish v then JUndefined else field v k)"

text \<open>\<^verbatim>\<open>xs.join(sep)\<close> on strings.\<close>

fun join :: "string \<Rightarrow> string list \<Rightarrow> string" where
  "join sep [] = []"
| "join sep [x] = x"
| "join sep (x # y # ys) = x @ sep @ join sep (y # ys)"

text \<open>
  \<^verbatim>\<open>String(v)\<close>, which is also what a template literal and \<^verbatim>\<open>v.toString()\<close> produce
  (the latter on a value that is not nullish). An array joins its elements with commas,
  rendering \<^verbatim>\<open>null\<close> and \<^verbatim>\<open>undefined\<close> elements as the empty string. An object is
  rendered by the \<^verbatim>\<open>toString\<close> it inherits from \<^verbatim>\<open>Object.prototype\<close>; an object with a
  property of its own named \<^verbatim>\<open>toString\<close> or \<^verbatim>\<open>valueOf\<close> is not covered.
\<close>

fun js_String :: "json \<Rightarrow> string" where
  "js_String JUndefined = ''undefined''"
| "js_String JNull = ''null''"
| "js_String (JBool b) = (if b then ''true'' else ''false'')"
| "js_String (JNum n) = n"
| "js_String (JStr s) = s"
| "js_String (JArr xs) = join '','' (map (\<lambda>x. if nullish x then [] else js_String x) xs)"
| "js_String (JObj kvs) = ''[object Object]''"

text \<open>\<^verbatim>\<open>v?.toString()\<close>\<close>

definition otoString :: "json \<Rightarrow> json" where
  "otoString v = (if nullish v then JUndefined else JStr (js_String v))"

text \<open>White space removed by \<^verbatim>\<open>trim\<close> and skipped by \<^verbatim>\<open>parseFloat\<close>: the ASCII part.\<close>

definition is_space :: "char \<Rightarrow> bool" where
  "is_space c = (c \<in> set [CHR '' '', CHR 0x09, CHR 0x0A, CHR 0x0B, CHR 0x0C, CHR 0x0D])"

text \<open>
  The white space and line terminators beyond ASCII, in UTF-8: U+00A0 in two bytes, and
  in three bytes U+1680, U+2000 to U+200A, U+2028, U+2029, U+202F, U+205F, U+3000 and
  U+FEFF.
\<close>

definition nbsp :: string where
  "nbsp = [CHR 0xC2, CHR 0xA0]"

definition wide_spaces :: "string list" where
  "wide_spaces =
     [[CHR 0xE1, CHR 0x9A, CHR 0x80],
      [CHR 0xE2, CHR 0x80, CHR 0x80], [CHR 0xE2, CHR 0x80, CHR 0x81],
      [CHR 0xE2, CHR 0x80, CHR 0x82], [CHR 0xE2, CHR 0x80, CHR 0x83],
      [CHR 0xE2, CHR 0x80, CHR 0x84], [CHR 0xE2, CHR 0x80, CHR 0x85],
      [CHR 0xE2, CHR 0x80, CHR 0x86], [CHR 0xE2, CHR 0x80, CHR 0x87],
      [CHR 0xE2, CHR 0x80, CHR 0x88], [CHR 0xE2, CHR 0x80, CHR 0x89],
      [CHR 0xE2, CHR 0x80, CHR 0x8A],
      [CHR 0xE2, CHR 0x80, CHR 0xA8], [CHR 0xE2, CHR 0x80, CHR 0xA9],
      [CHR 0xE2, CHR 0x80, CHR 0xAF],
      [CHR 0xE2, CHR 0x81, CHR 0x9F],
      [CHR 0xE3, CHR 0x80, CHR 0x80],
      [CHR 0xEF, CHR 0xBB, CHR 0xBF]]"

text \<open>The string without its leading white space.\<close>

fun skip_space :: "string \<Rightarrow> string" where
  "skip_space (a # b # c # s) =
     (if is_space a then skip_space (b # c # s)
      else if [a, b] = nbsp then skip_space (c # s)
      else if [a, b, c] \<in> set wide_spaces then skip_space s
      else a # b # c # s)"
| "skip_space [a, b] =
     (if is_space a then skip_space [b]
      else if [a, b] = nbsp then []
      else [a, b])"
| "skip_space [a] = (if is_space a then [] else [a])"
| "skip_space [] = []"

text \<open>The same on the reversed string, where the bytes of a character come last first.\<close>

fun skip_space_rev :: "string \<Rightarrow> string" where
  "skip_space_rev (c # b # a # s) =
     (if is_space c then skip_space_rev (b # a # s)
      else if [b, c] = nbsp then skip_space_rev (a # s)
      else if [a, b, c] \<in> set wide_spaces then skip_space_rev s
      else c # b # a # s)"
| "skip_space_rev [c, b] =
     (if is_space c then skip_space_rev [b]
      else if [b, c] = nbsp then []
      else [c, b])"
| "skip_space_rev [c] = (if is_space c then [] else [c])"
| "skip_space_rev [] = []"

definition trim :: "string \<Rightarrow> string" where
  "trim s = rev (skip_space_rev (rev (skip_space s)))"

definition lower_char :: "char \<Rightarrow> char" where
  "lower_char c =
     (case map_of (zip ''ABCDEFGHIJKLMNOPQRSTUVWXYZ'' ''abcdefghijklmnopqrstuvwxyz'') c of
        Some l \<Rightarrow> l | None \<Rightarrow> c)"

definition toLowerCase :: "string \<Rightarrow> string" where
  "toLowerCase s = map lower_char s"

subsection \<open>\<^verbatim>\<open>parseFloat\<close>\<close>

text \<open>
  A number as \<^verbatim>\<open>parseFloat\<close> returns it: \<open>NaN\<close>, an infinity (\<open>True\<close> for the
  negative one), or \<open>Fin neg m e\<close>, the finite double nearest to the decimal
  \<open>\<plusminus> m \<times> 10\<^sup>e\<close>. A zero is \<open>Fin neg 0 0\<close>, and \<open>m\<close> is 0 for no other
  number: a decimal too small for a double is a zero, one too large is an infinity.
\<close>

datatype jsnum = NaN | Infinity bool | Fin bool int int

text \<open>
  Rounding a positive rational \<open>a / b\<close> to the nearest double (binary64, ties to even).
  \<open>bit_length\<close> counts binary digits, \<open>floor_log2\<close> is \<open>\<lfloor>log\<^sub>2 (a / b)\<rfloor>\<close>, and
  \<open>to_double\<close> returns the double as \<open>n \<times> 2\<^sup>u\<close>, or \<open>None\<close> when the rational rounds
  to infinity. Below \<open>2\<^sup>-\<^sup>1\<^sup>0\<^sup>2\<^sup>2\<close> the spacing stays \<open>2\<^sup>-\<^sup>1\<^sup>0\<^sup>7\<^sup>4\<close> (subnormal numbers),
  so \<open>n\<close> can be 0.
\<close>

function bit_length :: "int \<Rightarrow> int" where
  "bit_length n = (if n \<le> 0 then 0 else 1 + bit_length (n div 2))"
  by pat_completeness auto
termination
  by (relation "measure nat") auto

definition at_least_pow2 :: "int \<Rightarrow> int \<Rightarrow> int \<Rightarrow> bool" where
  "at_least_pow2 a b d = (if 0 \<le> d then b * 2 ^ nat d \<le> a else b \<le> a * 2 ^ nat (- d))"

definition floor_log2 :: "int \<Rightarrow> int \<Rightarrow> int" where
  "floor_log2 a b =
     (let d = bit_length a - bit_length b
      in if at_least_pow2 a b d then d else d - 1)"

definition round_half_even :: "int \<Rightarrow> int \<Rightarrow> int" where
  "round_half_even a b =
     (let q = a div b; r = a mod b
      in if 2 * r < b then q
         else if b < 2 * r then q + 1
         else if even q then q else q + 1)"

definition to_double :: "int \<Rightarrow> int \<Rightarrow> (int \<times> int) option" where
  "to_double a b =
     (let k = floor_log2 a b in
      if 1023 < k then None
      else
        let u = max k (- 1022) - 52;
            n = (if 0 \<le> u then round_half_even a (b * 2 ^ nat u)
                 else round_half_even (a * 2 ^ nat (- u)) b)
        in if k = 1023 \<and> 2 ^ 53 \<le> n then None else Some (n, u))"

text \<open>The decimal \<open>m \<times> 10\<^sup>e\<close> as a fraction, and the number it denotes.\<close>

definition decimal_ratio :: "int \<Rightarrow> int \<Rightarrow> int \<times> int" where
  "decimal_ratio m ex = (if 0 \<le> ex then (m * 10 ^ nat ex, 1) else (m, 10 ^ nat (- ex)))"

definition number_value :: "bool \<Rightarrow> int \<Rightarrow> int \<Rightarrow> jsnum" where
  "number_value neg m ex =
     (if m = 0 then Fin neg 0 0
      else
        case to_double (fst (decimal_ratio m ex)) (snd (decimal_ratio m ex)) of
          None \<Rightarrow> Infinity neg
        | Some (n, u) \<Rightarrow> if n = 0 then Fin neg 0 0 else Fin neg m ex)"

definition is_digit :: "char \<Rightarrow> bool" where
  "is_digit c = (c \<in> set ''0123456789'')"

definition digit_val :: "char \<Rightarrow> int" where
  "digit_val c =
     (case map_of (zip ''0123456789'' [0, 1, 2, 3, 4, 5, 6, 7, 8, 9]) c of
        Some d \<Rightarrow> d | None \<Rightarrow> 0)"

definition digits_val :: "string \<Rightarrow> int" where
  "digits_val ds = foldl (\<lambda>acc c. 10 * acc + digit_val c) 0 ds"

text \<open>The exponent part \<^verbatim>\<open>e[+-]digits\<close>; it is read only when at least one digit follows.\<close>

definition exponent_part :: "string \<Rightarrow> int" where
  "exponent_part s =
     (case s of
        [] \<Rightarrow> 0
      | c # r \<Rightarrow>
          if c = CHR ''e'' \<or> c = CHR ''E'' then
            (case r of
               [] \<Rightarrow> 0
             | d # r' \<Rightarrow>
                 if d = CHR ''-'' then
                   (if takeWhile is_digit r' = [] then 0
                    else - digits_val (takeWhile is_digit r'))
                 else if d = CHR ''+'' then digits_val (takeWhile is_digit r')
                 else digits_val (takeWhile is_digit r))
          else 0)"

definition unsigned_part :: "bool \<Rightarrow> string \<Rightarrow> jsnum" where
  "unsigned_part neg s =
     (if take 8 s = ''Infinity'' then Infinity neg
      else
        let ip = takeWhile is_digit s;
            r = dropWhile is_digit s;
            fp = (case r of [] \<Rightarrow> [] | c # r' \<Rightarrow>
                    if c = CHR ''.'' then takeWhile is_digit r' else []);
            r2 = (case r of [] \<Rightarrow> [] | c # r' \<Rightarrow>
                    if c = CHR ''.'' then dropWhile is_digit r' else r)
        in if ip = [] \<and> fp = [] then NaN
           else number_value neg (digits_val (ip @ fp)) (exponent_part r2 - int (length fp)))"

definition parseFloat_str :: "string \<Rightarrow> jsnum" where
  "parseFloat_str s =
     (case skip_space s of
        [] \<Rightarrow> NaN
      | c # r \<Rightarrow>
          if c = CHR ''-'' then unsigned_part True r
          else if c = CHR ''+'' then unsigned_part False r
          else unsigned_part False (c # r))"

text \<open>\<^verbatim>\<open>parseFloat(v)\<close>: the argument is converted to a string first.\<close>

definition parseFloat :: "json \<Rightarrow> jsnum" where
  "parseFloat v = parseFloat_str (js_String v)"


subsection \<open>\<^verbatim>\<open>JSON.stringify\<close>\<close>

definition hex_digit :: "nat \<Rightarrow> char" where
  "hex_digit n = ''0123456789abcdef'' ! (n mod 16)"

definition quote_char :: "char \<Rightarrow> string" where
  "quote_char c =
     (if c = CHR 0x22 then [CHR 0x5C, CHR 0x22]
      else if c = CHR 0x5C then [CHR 0x5C, CHR 0x5C]
      else if c = CHR 0x08 then [CHR 0x5C, CHR ''b'']
      else if c = CHR 0x0C then [CHR 0x5C, CHR ''f'']
      else if c = CHR 0x0A then [CHR 0x5C, CHR ''n'']
      else if c = CHR 0x0D then [CHR 0x5C, CHR ''r'']
      else if c = CHR 0x09 then [CHR 0x5C, CHR ''t'']
      else if (of_char c :: nat) < 32 then
        [CHR 0x5C, CHR ''u'', CHR ''0'', CHR ''0'',
         hex_digit (of_char c div 16), hex_digit (of_char c mod 16)]
      else [c])"

definition quote :: "string \<Rightarrow> string" where
  "quote s = [CHR 0x22] @ concat (map quote_char s) @ [CHR 0x22]"

text \<open>
  Compact \<^verbatim>\<open>JSON.stringify(v)\<close>. A property whose value is \<^verbatim>\<open>undefined\<close> is left
  out, an \<^verbatim>\<open>undefined\<close> array element prints as \<^verbatim>\<open>null\<close>, and so do the numbers
  that JSON cannot write. The source never passes \<^verbatim>\<open>undefined\<close> itself.
\<close>

fun JSON_stringify :: "json \<Rightarrow> string" where
  "JSON_stringify JUndefined = ''null''"
| "JSON_stringify JNull = ''null''"
| "JSON_stringify (JBool b) = (if b then ''true'' else ''false'')"
| "JSON_stringify (JNum n) =
     (if n = ''NaN'' \<or> n = ''Infinity'' \<or> n = ''-Infinity'' then ''null'' else n)"
| "JSON_stringify (JStr s) = quote s"
| "JSON_stringify (JArr xs) = ''['' @ join '','' (map JSON_stringify xs) @ '']''"
| "JSON_stringify (JObj kvs) =
     ''{'' @ join '',''
       (map (\<lambda>kv. quote (fst kv) @ '':'' @ JSON_stringify (snd kv))
            (filter (\<lambda>kv. snd kv \<noteq> JUndefined) kvs)) @ ''}''"

section \<open>Field Extractor\<close>

text \<open>\<^verbatim>\<open>a || b || c || ...\<close>: the first truthy operand, else the last one.\<close>

fun jors :: "json list \<Rightarrow> json" where
  "jors [] = JUndefined"
| "jors [a] = a"
| "jors (a # b # r) = (if truthy a then a else jors (b # r))"

text \<open>The template \<^verbatim>\<open>`${a || ''} ${b || ''}`.trim()\<close> that joins a first and a last name.\<close>

definition full_name :: "json \<Rightarrow> json \<Rightarrow> string" where
  "full_name a b = trim (js_String (jor a (JStr [])) @ '' '' @ js_String (jor b (JStr [])))"

subsection \<open>The SQLite store (\<^verbatim>\<open>database.ts\<close>)\<close>

definition extractCustomerName :: "json \<Rightarrow> json" where
  "extractCustomerName orderData =
     (let client = field orderData ''client''; customer = field orderData ''customer'' in
      if truthy (ofield client ''first_name'') \<or> truthy (ofield client ''last_name'') then
        JStr (full_name (field client ''first_name'') (field client ''last_name''))
      else if truthy (ofield customer ''name'') then field customer ''name''
      else if truthy (field orderData ''customer_name'') then field orderData ''customer_name''
      else JStr ''Unknown'')"

definition extractCustomerPhone :: "json \<Rightarrow> json" where
  "extractCustomerPhone orderData =
     jors [ofield (field orderData ''client'') ''phone'',
           ofield (field orderData ''customer'') ''phone'',
           field orderData ''customer_phone'',
           field orderData ''phone'',
           JStr []]"

definition extractCustomerEmail :: "json \<Rightarrow> json" where
  "extractCustomerEmail orderData =
     jors [ofield (field orderData ''client'') ''email'',
           ofield (field orderData ''customer'') ''email'',
           field orderData ''customer_email'',
           field orderData ''email'',
           JStr []]"

definition extractDeliveryAddress :: "json \<Rightarrow> json" where
  "extractDeliveryAddress orderData =
     (let addr = ofield (field orderData ''delivery'') ''address'' in
      if truthy addr then
        JStr (join '', '' (map js_String (filter truthy
          [jor (field addr ''street'') (field addr ''address_line_1''),
           field addr ''city'',
           field addr ''state'',
           jor (field addr ''zip'') (field addr ''postal_code''),
           field addr ''country''])))
      else if truthy (field orderData ''delivery_address'') then field orderData ''delivery_address''
      else JStr [])"

subsection \<open>The MySQL store (\<^verbatim>\<open>database-mysql.ts\<close>)\<close>

text \<open>The recurring test \<^verbatim>\<open>v && String(v).trim()\<close> and the value returned when it holds.\<close>

definition nonblank :: "json \<Rightarrow> bool" where
  "nonblank v = (truthy v \<and> trim (js_String v) \<noteq> [])"

text \<open>
  A run of \<^verbatim>\<open>if (v && String(v).trim()) return String(v).trim();\<close> over the candidates
  in source order.
\<close>

fun first_nonblank :: "json list \<Rightarrow> string option" where
  "first_nonblank [] = None"
| "first_nonblank (v # vs) =
     (if nonblank v then Some (trim (js_String v)) else first_nonblank vs)"

text \<open>\<^verbatim>\<open>[...].filter(Boolean).map(s => String(s).trim())\<close>\<close>

definition address_parts :: "json list \<Rightarrow> string list" where
  "address_parts xs = map (\<lambda>v. trim (js_String v)) (filter truthy xs)"

definition extractCustomerName_mysql :: "json \<Rightarrow> string" where
  "extractCustomerName_mysql orderData =
     (let client = field orderData ''client'';
          customer = field orderData ''customer'';
          order = field orderData ''order''
      in
      if (truthy (field orderData ''client_first_name'') \<or> truthy (field orderData ''client_last_name''))
         \<and> full_name (field orderData ''client_first_name'') (field orderData ''client_last_name'') \<noteq> []
      then full_name (field orderData ''client_first_name'') (field orderData ''client_last_name'')
      else if nonblank (field orderData ''client_name'') then trim (js_String (field orderData ''client_name''))
      else if truthy client \<and> (truthy (field client ''first_name'') \<or> truthy (field client ''last_name''))
         \<and> full_name (field client ''first_name'') (field client ''last_name'') \<noteq> []
      then full_name (field client ''first_name'') (field client ''last_name'')
      else if truthy client \<and> truthy (field client ''name'') then js_String (field client ''name'')
      else if truthy client \<and> truthy (field client ''full_name'') then js_String (field client ''full_name'')
      else if truthy client \<and> truthy (field client ''firstName'') then js_String (field client ''firstName'')
      else if truthy client \<and> truthy (field client ''lastName'') then js_String (field client ''lastName'')
      else if truthy customer \<and> truthy (field customer ''name'') then js_String (field customer ''name'')
      else if truthy customer \<and> (truthy (field customer ''first_name'') \<or> truthy (field customer ''last_name''))
         \<and> full_name (field customer ''first_name'') (field customer ''last_name'') \<noteq> []
      then full_name (field customer ''first_name'') (field customer ''last_name'')
      else if truthy customer \<and> truthy (field customer ''full_name'') then js_String (field customer ''full_name'')
      else if truthy customer \<and> (truthy (field customer ''firstName'') \<or> truthy (field customer ''lastName''))
         \<and> full_name (field customer ''firstName'') (field customer ''lastName'') \<noteq> []
      then full_name (field customer ''firstName'') (field customer ''lastName'')
      else if nonblank (field orderData ''customer_name'') then trim (js_String (field orderData ''customer_name''))
      else if nonblank (field orderData ''name'') then trim (js_String (field orderData ''name''))
      else if (truthy (field orderData ''first_name'') \<or> truthy (field orderData ''last_name''))
         \<and> full_name (field orderData ''first_name'') (field orderData ''last_name'') \<noteq> []
      then full_name (field orderData ''first_name'') (field orderData ''last_name'')
      else if (truthy (ofield (ofield order ''client'') ''first_name'')
               \<or> truthy (ofield (ofield order ''client'') ''last_name''))
         \<and> full_name (field (field order ''client'') ''first_name'')
                      (field (field order ''client'') ''last_name'') \<noteq> []
      then full_name (field (field order ''client'') ''first_name'')
                     (field (field order ''client'') ''last_name'')
      else if truthy (ofield (ofield order ''customer'') ''name'')
      then js_String (field (field order ''customer'') ''name'')
      else if truthy (ofield order ''customer_name'') then js_String (field order ''customer_name'')
      else if truthy (ofield (ofield order ''client'') ''name'')
      then js_String (field (field order ''client'') ''name'')
      else ''Unknown'')"

definition extractCustomerPhone_mysql :: "json \<Rightarrow> string" where
  "extractCustomerPhone_mysql orderData =
     (let client = field orderData ''client'';
          customer = field orderData ''customer'';
          order = field orderData ''order''
      in case first_nonblank
           [field orderData ''client_phone'',
            field orderData ''client_phone_number'',
            ofield client ''phone'',
            ofield client ''phone_number'',
            ofield client ''mobile'',
            ofield client ''tel'',
            ofield client ''telephone'',
            ofield customer ''phone'',
            ofield customer ''phone_number'',
            ofield customer ''mobile'',
            ofield customer ''tel'',
            field orderData ''customer_phone'',
            field orderData ''phone'',
            field orderData ''phone_number'',
            field orderData ''mobile'',
            field orderData ''tel'',
            ofield (ofield order ''client'') ''phone'',
            ofield (ofield order ''customer'') ''phone'',
            ofield order ''phone'']
         of Some s \<Rightarrow> s | None \<Rightarrow> [])"

definition extractCustomerEmail_mysql :: "json \<Rightarrow> string" where
  "extractCustomerEmail_mysql orderData =
     (let client = field orderData ''client'';
          customer = field orderData ''customer'';
          order = field orderData ''order''
      in case first_nonblank
           [field orderData ''client_email'',
            ofield client ''email'',
            ofield client ''email_address'',
            ofield customer ''email'',
            ofield customer ''email_address'',
            field orderData ''customer_email'',
            field orderData ''email'',
            field orderData ''email_address'',
            ofield (ofield order ''client'') ''email'',
            ofield (ofield order ''customer'') ''email'',
            ofield order ''email'']
         of Some s \<Rightarrow> s | None \<Rightarrow> [])"

text \<open>
  The address is assembled from the first structured source that yields a component;
  single-string fields are tried in between, in the order of the source.
\<close>

definition extractDeliveryAddress_mysql :: "json \<Rightarrow> string" where
  "extractDeliveryAddress_mysql orderData =
     (let parts = field orderData ''client_address_parts'';
          delivery = field orderData ''delivery'';
          addr = ofield delivery ''address'';
          order = field orderData ''order'';
          oaddr = ofield (ofield order ''delivery'') ''address'';
          from_parts = address_parts
            [jors [field parts ''street'', field parts ''address_line_1'', field parts ''address''],
             jors [field parts ''more_address'', field parts ''address_line_2'', field parts ''apt'',
                   field parts ''apartment''],
             jors [field parts ''city'', field parts ''locality'', field parts ''town''],
             jors [field parts ''state'', field parts ''province'', field parts ''region''],
             jors [field parts ''zip'', field parts ''postal_code'', field parts ''postcode''],
             jors [field parts ''country'', field parts ''country_code'']];
          from_addr = address_parts
            [jors [field addr ''street'', field addr ''address_line_1'', field addr ''address'',
                   field addr ''line1'', field addr ''line_1'', field addr ''street_address''],
             jors [field addr ''address_line_2'', field addr ''line2'', field addr ''line_2'',
                   field addr ''apt'', field addr ''apartment'', field addr ''unit''],
             jors [field addr ''city'', field addr ''locality'', field addr ''town''],
             jors [field addr ''state'', field addr ''province'', field addr ''region'',
                   field addr ''state_province''],
             jors [field addr ''zip'', field addr ''postal_code'', field addr ''postcode'',
                   field addr ''zip_code'', field addr ''postal''],
             jors [field addr ''country'', field addr ''country_code'']];
          from_delivery = address_parts
            [jors [field delivery ''street'', field delivery ''address'',
                   field delivery ''address_line_1'', field delivery ''street_address''],
             jors [field delivery ''address_line_2'', field delivery ''line2'', field delivery ''apt'',
                   field delivery ''apartment''],
             jors [field delivery ''city'', field delivery ''town'', field delivery ''locality''],
             jors [field delivery ''state'', field delivery ''province'', field delivery ''region''],
             jors [field delivery ''zip'', field delivery ''postal_code'', field delivery ''postcode'',
                   field delivery ''zip_code''],
             jors [field delivery ''country'', field delivery ''country_code'']];
          from_oaddr = address_parts
            [jors [field oaddr ''street'', field oaddr ''address_line_1'', field oaddr ''address'',
                   field oaddr ''line1''],
             jors [field oaddr ''city'', field oaddr ''locality''],
             jors [field oaddr ''state'', field oaddr ''province''],
             jors [field oaddr ''zip'', field oaddr ''postal_code'', field oaddr ''postcode''],
             field oaddr ''country'']
      in
      if nonblank (field orderData ''client_address'') then trim (js_String (field orderData ''client_address''))
      else if truthy parts \<and> from_parts \<noteq> [] then join '', '' from_parts
      else if truthy addr \<and> from_addr \<noteq> [] then join '', '' from_addr
      else if truthy delivery
         \<and> truthy (jors [field delivery ''street'', field delivery ''city'', field delivery ''address'',
                          field delivery ''address_line_1''])
         \<and> from_delivery \<noteq> [] then join '', '' from_delivery
      else if truthy delivery \<and> nonblank (field delivery ''full_address'')
      then trim (js_String (field delivery ''full_address''))
      else if truthy delivery \<and> nonblank (field delivery ''formatted_address'')
      then trim (js_String (field delivery ''formatted_address''))
      else (case first_nonblank
              [field orderData ''delivery_address'',
               field orderData ''address'',
               field orderData ''shipping_address'',
               field orderData ''deliveryAddress'']
            of Some s \<Rightarrow> s
             | None \<Rightarrow>
                 (if truthy oaddr \<and> from_oaddr \<noteq> [] then join '', '' from_oaddr
                  else (case first_nonblank
                          [ofield (ofield order ''delivery'') ''full_address'',
                           ofield order ''delivery_address'',
                           ofield order ''address'']
                        of Some s \<Rightarrow> s | None \<Rightarrow> []))))"


section \<open>Order Store\<close>

text \<open>
  A stored order. The columns hold the values that the statement binds; a field that the
  source fills from \<^verbatim>\<open>a || b\<close> over the payload can hold any JSON value, so it is typed
  \<open>json\<close>. The surrogate row id assigned by the engine is not part of the record: no
  operation of the pipeline reads it.
\<close>

record order =
  gloriafood_order_id :: string
  store_id :: string
  customer_name :: json
  customer_phone :: json
  customer_email :: json
  delivery_address :: json
  total_price :: jsnum
  currency :: json
  status :: json
  order_type :: json
  items :: string
  raw_data :: string
  created_at :: json
  updated_at :: string
  fetched_at :: string
  sent_to_doordash :: nat
  doordash_order_id :: json
  doordash_sent_at :: json
  doordash_tracking_url :: json

text \<open>
  The statements that the two stores send to their engine, and the engine as the stores
  see it: whether a connection can be obtained, whether a statement executes or raises
  (a missing table, a constraint, a value the driver refuses to bind), and the readings
  of the clock. Type conversions inside the engine are not represented, nor is waiting
  for a free connection: \<open>connects\<close> says whether \<^verbatim>\<open>getConnection\<close> resolves.
\<close>

datatype stmt =
    Upsert order
  | SelectByOrderId string
  | MarkSent string json json
  | CountOrders
  | SelectRecent nat

record env =
  connects :: bool
  executes :: "stmt \<Rightarrow> bool"
  now_created :: string
  now_updated :: string
  now_fetched :: string
  now_sent :: string

datatype backend = SQLite | MySQL

text \<open>
  The table in insertion order, and for the MySQL store the number of pool connections
  that are checked out and not released.
\<close>

record database =
  kind :: backend
  orders :: "order list"
  held :: nat

datatype exn = TypeError | StorageError | ApiError

definition find_order :: "order list \<Rightarrow> string \<Rightarrow> order option" where
  "find_order rows orderId = find (\<lambda>r. gloriafood_order_id r = orderId) rows"

text \<open>\<^verbatim>\<open>total_price: parseFloat(orderData.total_price || orderData.total || '0')\<close>\<close>

definition total_price_of :: "json \<Rightarrow> jsnum" where
  "total_price_of orderData =
     parseFloat (jors [field orderData ''total_price'', field orderData ''total'', JStr ''0''])"

text \<open>
  \<^verbatim>\<open>orderData.id?.toString() || orderData.order_id?.toString() || ''\<close>,
  always a string.
\<close>

definition order_id_of :: "json \<Rightarrow> string" where
  "order_id_of orderData =
     js_String (jors [otoString (field orderData ''id''),
                      otoString (field orderData ''order_id''),
                      JStr []])"

definition store_id_of :: "json \<Rightarrow> string" where
  "store_id_of orderData =
     js_String (jors [otoString (field orderData ''store_id''),
                      otoString (field orderData ''restaurant_id''),
                      JStr []])"

subsection \<open>SQLite\<close>

text \<open>
  The row bound by \<^verbatim>\<open>stmt.run\<close>: the \<^verbatim>\<open>order\<close> literal, with \<^verbatim>\<open>|| null\<close> applied to
  the e-mail and the address. The dispatch columns take their defaults.
\<close>

definition order_row :: "env \<Rightarrow> json \<Rightarrow> order" where
  "order_row e orderData =
     \<lparr> gloriafood_order_id = order_id_of orderData,
       store_id = store_id_of orderData,
       customer_name = extractCustomerName orderData,
       customer_phone = extractCustomerPhone orderData,
       customer_email = jor (extractCustomerEmail orderData) JNull,
       delivery_address = jor (extractDeliveryAddress orderData) JNull,
       total_price = total_price_of orderData,
       currency = jor (field orderData ''currency'') (JStr ''USD''),
       status = jors [field orderData ''status'', field orderData ''order_status'', JStr ''unknown''],
       order_type = jors [field orderData ''order_type'', field orderData ''type'', JStr ''unknown''],
       items = JSON_stringify (jors [field orderData ''items'', field orderData ''order_items'', JArr []]),
       raw_data = JSON_stringify orderData,
       created_at = jors [field orderData ''created_at'', field orderData ''order_date'',
                          JStr (now_created e)],
       updated_at = now_updated e,
       fetched_at = now_fetched e,
       sent_to_doordash = 0,
       doordash_order_id = JNull,
       doordash_sent_at = JNull,
       doordash_tracking_url = JNull \<rparr>"

text \<open>
  \<^verbatim>\<open>INSERT ... ON CONFLICT(gloriafood_order_id) DO UPDATE SET\<close> status, total_price,
  updated_at, fetched_at, raw_data.
\<close>

definition on_conflict_update :: "order \<Rightarrow> order \<Rightarrow> order" where
  "on_conflict_update excluded r =
     r\<lparr> status := status excluded,
        total_price := total_price excluded,
        updated_at := updated_at excluded,
        fetched_at := fetched_at excluded,
        raw_data := raw_data excluded \<rparr>"

definition upsert_rows :: "(order \<Rightarrow> order \<Rightarrow> order) \<Rightarrow> order \<Rightarrow> order list \<Rightarrow> order list" where
  "upsert_rows upd new rows =
     (if find_order rows (gloriafood_order_id new) = None then rows @ [new]
      else map (\<lambda>r. if gloriafood_order_id r = gloriafood_order_id new then upd new r else r) rows)"

text \<open>\<^verbatim>\<open>getOrderByGloriaFoodId\<close> has no handler of its own: an engine error propagates.\<close>

definition getOrderByGloriaFoodId :: "env \<Rightarrow> database \<Rightarrow> string \<Rightarrow> exn + order option" where
  "getOrderByGloriaFoodId e db orderId =
     (if executes e (SelectByOrderId orderId) then Inr (find_order (orders db) orderId)
      else Inl StorageError)"

text \<open>
  Everything happens inside one \<^verbatim>\<open>try\<close>; whatever is thrown (reading a property of
  \<^verbatim>\<open>null\<close>, the statement, the read-back) ends in \<^verbatim>\<open>return null\<close>. A write that
  succeeded before the read-back failed stays written.
\<close>

definition insertOrUpdateOrder :: "env \<Rightarrow> database \<Rightarrow> json \<Rightarrow> order option \<times> database" where
  "insertOrUpdateOrder e db orderData =
     (if nullish orderData then (None, db)
      else
        let row = order_row e orderData in
        if \<not> executes e (Upsert row) then (None, db)
        else
          let db' = db\<lparr>orders := upsert_rows on_conflict_update row (orders db)\<rparr> in
          case getOrderByGloriaFoodId e db' (gloriafood_order_id row) of
            Inl x \<Rightarrow> (None, db')
          | Inr saved \<Rightarrow> (saved, db'))"

text \<open>
  \<^verbatim>\<open>UPDATE orders SET sent_to_doordash = 1, doordash_order_id = COALESCE(?, ...), ...\<close>
  with \<^verbatim>\<open>doordashOrderId || null\<close> and \<^verbatim>\<open>trackingUrl || null\<close> bound.
\<close>

definition mark_row :: "string \<Rightarrow> json \<Rightarrow> json \<Rightarrow> order \<Rightarrow> order" where
  "mark_row now doordashOrderId trackingUrl r =
     r\<lparr> sent_to_doordash := 1,
        doordash_order_id := (if truthy doordashOrderId then doordashOrderId else doordash_order_id r),
        doordash_tracking_url := (if truthy trackingUrl then trackingUrl else doordash_tracking_url r),
        doordash_sent_at := JStr now,
        updated_at := now \<rparr>"

definition mark_rows :: "string \<Rightarrow> string \<Rightarrow> json \<Rightarrow> json \<Rightarrow> order list \<Rightarrow> order list" where
  "mark_rows now orderId doordashOrderId trackingUrl rows =
     map (\<lambda>r. if gloriafood_order_id r = orderId then mark_row now doordashOrderId trackingUrl r else r) rows"

definition markOrderSentToDoorDash :: "env \<Rightarrow> database \<Rightarrow> string \<Rightarrow> json \<Rightarrow> json \<Rightarrow> database" where
  "markOrderSentToDoorDash e db gloriafoodOrderId doordashOrderId trackingUrl =
     (if executes e (MarkSent gloriafoodOrderId (jor doordashOrderId JNull) (jor trackingUrl JNull))
      then db\<lparr>orders := mark_rows (now_sent e) gloriafoodOrderId doordashOrderId trackingUrl (orders db)\<rparr>
      else db)"

subsection \<open>MySQL\<close>

text \<open>
  \<^verbatim>\<open>pool.getConnection()\<close> checks a connection out or rejects;
  \<^verbatim>\<open>connection.release()\<close> hands it back.
\<close>

definition getConnection :: "env \<Rightarrow> database \<Rightarrow> exn + database" where
  "getConnection e db = (if connects e then Inr (db\<lparr>held := Suc (held db)\<rparr>) else Inl StorageError)"

definition release :: "database \<Rightarrow> database" where
  "release db = db\<lparr>held := held db - 1\<rparr>"

text \<open>The row bound by \<^verbatim>\<open>connection.query\<close>; here the phone gets \<^verbatim>\<open>|| null\<close> as well.\<close>

definition order_row_mysql :: "env \<Rightarrow> json \<Rightarrow> order" where
  "order_row_mysql e orderData =
     \<lparr> gloriafood_order_id = order_id_of orderData,
       store_id = store_id_of orderData,
       customer_name = JStr (extractCustomerName_mysql orderData),
       customer_phone = jor (JStr (extractCustomerPhone_mysql orderData)) JNull,
       customer_email = jor (JStr (extractCustomerEmail_mysql orderData)) JNull,
       delivery_address = jor (JStr (extractDeliveryAddress_mysql orderData)) JNull,
       total_price = total_price_of orderData,
       currency = jor (field orderData ''currency'') (JStr ''USD''),
       status = jors [field orderData ''status'', field orderData ''order_status'', JStr ''unknown''],
       order_type = jors [field orderData ''order_type'', field orderData ''type'', JStr ''unknown''],
       items = JSON_stringify (jors [field orderData ''items'', field orderData ''order_items'', JArr []]),
       raw_data = JSON_stringify orderData,
       created_at = jors [field orderData ''created_at'', field orderData ''order_date'',
                          JStr (now_created e)],
       updated_at = now_updated e,
       fetched_at = now_fetched e,
       sent_to_doordash = 0,
       doordash_order_id = JNull,
       doordash_sent_at = JNull,
       doordash_tracking_url = JNull \<rparr>"

text \<open>
  \<^verbatim>\<open>ON DUPLICATE KEY UPDATE\<close> customer_name, customer_phone, customer_email,
  delivery_address, status, total_price, order_type, items, updated_at, fetched_at,
  raw_data.
\<close>

definition on_duplicate_key_update :: "order \<Rightarrow> order \<Rightarrow> order" where
  "on_duplicate_key_update vals r =
     r\<lparr> customer_name := customer_name vals,
        customer_phone := customer_phone vals,
        customer_email := customer_email vals,
        delivery_address := delivery_address vals,
        status := status vals,
        total_price := total_price vals,
        order_type := order_type vals,
        items := items vals,
        updated_at := updated_at vals,
        fetched_at := fetched_at vals,
        raw_data := raw_data vals \<rparr>"

text \<open>
  Each operation is \<^verbatim>\<open>try { getConnection; query; release; return ... } catch { return default }\<close>:
  the release is the statement after the query, and the handler does not release.
\<close>

definition getOrderByGloriaFoodId_mysql :: "env \<Rightarrow> database \<Rightarrow> string \<Rightarrow> order option \<times> database" where
  "getOrderByGloriaFoodId_mysql e db orderId =
     (case getConnection e db of
        Inl x \<Rightarrow> (None, db)
      | Inr db1 \<Rightarrow>
          if executes e (SelectByOrderId orderId)
          then (find_order (orders db1) orderId, release db1)
          else (None, db1))"

definition insertOrUpdateOrder_mysql :: "env \<Rightarrow> database \<Rightarrow> json \<Rightarrow> order option \<times> database" where
  "insertOrUpdateOrder_mysql e db orderData =
     (if nullish orderData then (None, db)
      else
        let row = order_row_mysql e orderData in
        case getConnection e db of
          Inl x \<Rightarrow> (None, db)
        | Inr db1 \<Rightarrow>
            if \<not> executes e (Upsert row) then (None, db1)
            else
              let db2 = release (db1\<lparr>orders := upsert_rows on_duplicate_key_update row (orders db1)\<rparr>)
              in getOrderByGloriaFoodId_mysql e db2 (gloriafood_order_id row))"

text \<open>The MySQL table has no tracking-url column and the method no such parameter.\<close>

definition markOrderSentToDoorDash_mysql :: "env \<Rightarrow> database \<Rightarrow> string \<Rightarrow> json \<Rightarrow> database" where
  "markOrderSentToDoorDash_mysql e db gloriafoodOrderId doordashOrderId =
     (case getConnection e db of
        Inl x \<Rightarrow> db
      | Inr db1 \<Rightarrow>
          if executes e (MarkSent gloriafoodOrderId (jor doordashOrderId JNull) JNull)
          then release (db1\<lparr>orders := mark_rows (now_sent e) gloriafoodOrderId doordashOrderId JNull (orders db1)\<rparr>)
          else db1)"

definition getOrderCount_mysql :: "env \<Rightarrow> database \<Rightarrow> nat \<times> database" where
  "getOrderCount_mysql e db =
     (case getConnection e db of
        Inl x \<Rightarrow> (0, db)
      | Inr db1 \<Rightarrow>
          if executes e CountOrders then (length (orders db1), release db1) else (0, db1))"


definition getRecentOrders_mysql :: "env \<Rightarrow> database \<Rightarrow> nat \<Rightarrow> database" where
  "getRecentOrders_mysql e db minutes =
     (case getConnection e db of
        Inl x \<Rightarrow> db
      | Inr db1 \<Rightarrow> if executes e (SelectRecent minutes) then release db1 else db1)"

subsection \<open>The store behind \<^verbatim>\<open>IDatabase\<close>\<close>

text \<open>
  The webhook server talks to whichever store the factory built. A result is awaited
  whether the store is synchronous or not (\<^verbatim>\<open>handleAsync\<close>).
\<close>

definition db_getOrderByGloriaFoodId :: "env \<Rightarrow> database \<Rightarrow> string \<Rightarrow> (exn + order option) \<times> database" where
  "db_getOrderByGloriaFoodId e db orderId =
     (case kind db of
        SQLite \<Rightarrow> (getOrderByGloriaFoodId e db orderId, db)
      | MySQL \<Rightarrow> (Inr (fst (getOrderByGloriaFoodId_mysql e db orderId)),
                  snd (getOrderByGloriaFoodId_mysql e db orderId)))"

definition db_insertOrUpdateOrder :: "env \<Rightarrow> database \<Rightarrow> json \<Rightarrow> order option \<times> database" where
  "db_insertOrUpdateOrder e db orderData =
     (case kind db of
        SQLite \<Rightarrow> insertOrUpdateOrder e db orderData
      | MySQL \<Rightarrow> insertOrUpdateOrder_mysql e db orderData)"

text \<open>The server calls \<^verbatim>\<open>markOrderSentToDoorDash(orderId.toString(), resp.id)\<close>: two arguments.\<close>

definition db_markOrderSentToDoorDash :: "env \<Rightarrow> database \<Rightarrow> string \<Rightarrow> json \<Rightarrow> database" where
  "db_markOrderSentToDoorDash e db gloriafoodOrderId doordashOrderId =
     (case kind db of
        SQLite \<Rightarrow> markOrderSentToDoorDash e db gloriafoodOrderId doordashOrderId JUndefined
      | MySQL \<Rightarrow> markOrderSentToDoorDash_mysql e db gloriafoodOrderId doordashOrderId)"

section \<open>Delivery Dispatch Client\<close>

text \<open>
  What an HTTP exchange with the partner comes to: a 2xx response with its body, an
  error response with status and body, or no response at all (time-out, network) with
  the error's message. Signing the request is not part of the embedding.
\<close>

datatype http_result = Response json | ErrorResponse nat json | NoResponse string

record drive_delivery =
  external_delivery_id :: string
  pickup_address :: string
  pickup_phone_number :: json
  pickup_business_name :: json
  dropoff_address :: string
  dropoff_phone_number :: string
  dropoff_contact_given_name :: json
  dropoff_contact_family_name :: json
  dropoff_instructions :: json
  order_value :: "jsnum option"

record doordash_response =
  dd_id :: json
  dd_external_delivery_id :: json
  dd_status :: json
  dd_tracking_url :: json
  dd_raw :: json

text \<open>
  \<^verbatim>\<open>(raw || '').replace(/[^\d+]/g, '')\<close>: only a string has \<^verbatim>\<open>replace\<close>, anything
  else that is truthy raises a \<^verbatim>\<open>TypeError\<close>.
\<close>

definition normalizePhone :: "json \<Rightarrow> exn + string" where
  "normalizePhone raw =
     (case jor raw (JStr []) of
        JStr s \<Rightarrow> Inr (filter (\<lambda>c. is_digit c \<or> c = CHR ''+'') s)
      | _ \<Rightarrow> Inl TypeError)"

text \<open>\<^verbatim>\<open>Math.round\<close> of the double \<open>\<plusminus> n \<times> 2\<^sup>u\<close>: halves round towards plus infinity.\<close>

definition math_round :: "bool \<Rightarrow> int \<Rightarrow> int \<Rightarrow> int" where
  "math_round neg n u =
     (let sn = (if neg then - n else n)
      in if 0 \<le> u then sn * 2 ^ nat u
         else (2 * sn + 2 ^ nat (- u)) div (2 * 2 ^ nat (- u)))"

text \<open>
  \<^verbatim>\<open>toCents\<close>: \<^verbatim>\<open>Math.round(n * 100)\<close> for a finite \<^verbatim>\<open>n = parseFloat(v || 0)\<close>, else
  \<^verbatim>\<open>undefined\<close>. The product is rounded to a double before \<^verbatim>\<open>Math.round\<close> sees it,
  and it can be an infinity.
\<close>

definition toCents :: "json \<Rightarrow> jsnum option" where
  "toCents v =
     (case parseFloat (jor v (JNum ''0'')) of
        Fin neg m ex \<Rightarrow>
          (if m = 0 then Some (Fin neg 0 0)
           else
             case to_double (fst (decimal_ratio m ex)) (snd (decimal_ratio m ex)) of
               None \<Rightarrow> None
             | Some (n, u) \<Rightarrow>
                 (case (if 0 \<le> u then to_double (100 * n * 2 ^ nat u) 1
                        else to_double (100 * n) (2 ^ nat (- u))) of
                    None \<Rightarrow> Some (Infinity neg)
                  | Some (n2, u2) \<Rightarrow>
                      Some (Fin (if math_round neg n2 u2 = 0 then neg else math_round neg n2 u2 < 0)
                                \<bar>math_round neg n2 u2\<bar> 0)))
      | _ \<Rightarrow> None)"

text \<open>
  \<^verbatim>\<open>convertGloriaFoodToDrive\<close>. \<open>uuid\<close> is what \<^verbatim>\<open>crypto.randomUUID()\<close> returns, used
  when the payload carries no id.
\<close>

definition convertGloriaFoodToDrive :: "string \<Rightarrow> json \<Rightarrow> exn + drive_delivery" where
  "convertGloriaFoodToDrive uuid orderData =
     (let externalId = js_String (jors [otoString (field orderData ''id''),
                                        otoString (field orderData ''order_id''),
                                        JStr uuid]);
          pickupAddressParts = join '', '' (map js_String (filter truthy
            [field orderData ''restaurant_street'',
             field orderData ''restaurant_city'',
             field orderData ''restaurant_state'',
             field orderData ''restaurant_zipcode'',
             field orderData ''restaurant_country'']));
          parts = field orderData ''client_address_parts'';
          country = js_String (jors [ofield parts ''country'', field orderData ''restaurant_country'', JStr []]);
          city = js_String (jors [ofield parts ''city'', field orderData ''restaurant_city'', JStr []]);
          state = js_String (jors [ofield parts ''state'', field orderData ''restaurant_state'', JStr []]);
          zip = js_String (jors [ofield parts ''zip'', ofield parts ''postal_code'',
                                 field orderData ''restaurant_zipcode'', JStr []]);
          street = js_String (jors [ofield parts ''street'', field orderData ''client_address'', JStr []]);
          dropoffAddress = join '', '' (filter (\<lambda>s. s \<noteq> [])
            [street, city, join '' '' (filter (\<lambda>s. s \<noteq> []) [state, zip]), country]);
          given = jors [field orderData ''client_first_name'',
                        ofield (field orderData ''client'') ''first_name'', JStr []];
          family = jors [field orderData ''client_last_name'',
                         ofield (field orderData ''client'') ''last_name'', JStr []];
          phone = jors [field orderData ''client_phone'',
                        ofield (field orderData ''client'') ''phone'', JStr []]
      in
      case (if truthy (field orderData ''restaurant_phone'')
            then map_sum id JStr (normalizePhone (field orderData ''restaurant_phone''))
            else Inr JUndefined) of
        Inl x \<Rightarrow> Inl x
      | Inr pickupPhone \<Rightarrow>
          (case normalizePhone phone of
             Inl x \<Rightarrow> Inl x
           | Inr dropoffPhone \<Rightarrow>
               Inr \<lparr> external_delivery_id = externalId,
                     pickup_address = pickupAddressParts,
                     pickup_phone_number = pickupPhone,
                     pickup_business_name = jor (field orderData ''restaurant_name'') JUndefined,
                     dropoff_address = dropoffAddress,
                     dropoff_phone_number = dropoffPhone,
                     dropoff_contact_given_name = jor given JUndefined,
                     dropoff_contact_family_name = jor family JUndefined,
                     dropoff_instructions = jor (field orderData ''instructions'') JUndefined,
                     order_value = toCents (field orderData ''total_price'') \<rparr>))"

text \<open>
  \<^verbatim>\<open>createDriveDelivery\<close>: one POST; a response is mapped field by field, anything else
  is rethrown as an \<^verbatim>\<open>Error\<close>.
\<close>

definition createDriveDelivery :: "(drive_delivery \<Rightarrow> http_result) \<Rightarrow> drive_delivery \<Rightarrow> exn + doordash_response" where
  "createDriveDelivery post payload =
     (case post payload of
        Response body \<Rightarrow>
          (let data = jor body (JObj []) in
           Inr \<lparr> dd_id = jors [field data ''delivery_id'', field data ''id'',
                               field data ''support_reference'',
                               ofield (field data ''data'') ''delivery_id''],
                 dd_external_delivery_id = jor (field data ''external_delivery_id'')
                                               (JStr (external_delivery_id payload)),
                 dd_status = jors [field data ''status'', field data ''delivery_status'',
                                   field data ''state'', ofield (field data ''data'') ''status''],
                 dd_tracking_url = jor (field data ''tracking_url'')
                                       (ofield (field data ''data'') ''tracking_url''),
                 dd_raw = data \<rparr>)
      | ErrorResponse code body \<Rightarrow> Inl ApiError
      | NoResponse msg \<Rightarrow> Inl ApiError)"

subsection \<open>\<^verbatim>\<open>getOrderStatus\<close>\<close>

definition HEX_digit :: "nat \<Rightarrow> char" where
  "HEX_digit n = ''0123456789ABCDEF'' ! (n mod 16)"

text \<open>\<^verbatim>\<open>encodeURIComponent\<close> on the bytes of the string.\<close>

definition encodeURIComponent :: "string \<Rightarrow> string" where
  "encodeURIComponent s =
     concat (map (\<lambda>c.
       if c \<in> set ''ABCDEFGHIJKLMNOPQRSTUVWXYZabcdefghijklmnopqrstuvwxyz0123456789-_.!~*'' \<or> c = CHR 0x27
          \<or> c = CHR ''('' \<or> c = CHR '')''
       then [c]
       else [CHR ''%'', HEX_digit (of_char c div 16), HEX_digit (of_char c mod 16)]) s)"

definition tryEndpoints :: "string \<Rightarrow> string list" where
  "tryEndpoints key =
     [''/deliveries/'' @ encodeURIComponent key,
      ''/deliveries/external_delivery_id/'' @ encodeURIComponent key,
      ''/deliveries/by_external_id/'' @ encodeURIComponent key]"

text \<open>What \<^verbatim>\<open>getOrderStatus\<close> throws, by the message it builds.\<close>

datatype status_error =
    MissingIdentifier
  | NotFound404 json
  | ApiErrorStatus nat json
  | ApiErrorMessage string

definition status_response :: "string \<Rightarrow> json \<Rightarrow> doordash_response" where
  "status_response idOrExternalId body =
     (let data = jor body (JObj []) in
      \<lparr> dd_id = jors [field data ''delivery_id'', field data ''id'', field data ''support_reference''],
        dd_external_delivery_id = jor (field data ''external_delivery_id'') (JStr idOrExternalId),
        dd_status = jors [field data ''status'', field data ''delivery_status'', field data ''state''],
        dd_tracking_url = field data ''tracking_url'',
        dd_raw = data \<rparr>)"

text \<open>
  The loop over the endpoints. It returns at the first response; an error of any kind is
  kept in \<open>lastError\<close> and the next endpoint is tried. The second component lists the
  paths requested so far.
\<close>

fun try_loop :: "(string \<Rightarrow> http_result) \<Rightarrow> string list \<Rightarrow> http_result option \<Rightarrow> string list
                 \<Rightarrow> (http_result option + json) \<times> string list" where
  "try_loop get [] lastError asked = (Inl lastError, asked)"
| "try_loop get (path # rest) lastError asked =
     (case get path of
        Response body \<Rightarrow> (Inr body, asked @ [path])
      | err \<Rightarrow> try_loop get rest (Some err) (asked @ [path]))"

definition getOrderStatus :: "(string \<Rightarrow> http_result) \<Rightarrow> string \<Rightarrow> (status_error + doordash_response) \<times> string list" where
  "getOrderStatus get idOrExternalId =
     (let key = trim idOrExternalId in
      if key = [] then (Inl MissingIdentifier, [])
      else
        case try_loop get (tryEndpoints key) None [] of
          (Inr body, asked) \<Rightarrow> (Inr (status_response idOrExternalId body), asked)
        | (Inl (Some (ErrorResponse code body)), asked) \<Rightarrow>
            (if code = 404 then (Inl (NotFound404 body), asked)
             else (Inl (ApiErrorStatus code body), asked))
        | (Inl (Some (NoResponse msg)), asked) \<Rightarrow>
            (Inl (ApiErrorMessage (if msg = [] then ''Unknown error'' else msg)), asked)
        | (Inl _, asked) \<Rightarrow> (Inl (ApiErrorMessage ''Unknown error''), asked))"


section \<open>Dispatch Controller (\<^verbatim>\<open>webhook-mode.ts\<close>)\<close>

text \<open>
  What one webhook call meets outside the process: the storage engine, the partner's
  answer to \<^verbatim>\<open>POST /deliveries\<close>, and the random id.
\<close>

record world =
  engine :: env
  post_deliveries :: "drive_delivery \<Rightarrow> http_result"
  uuid :: string

text \<open>
  The server: its store, whether a DoorDash client was configured, and, for the sake of
  the properties below, the requests sent to \<^verbatim>\<open>POST /deliveries\<close> so far (oldest
  first).
\<close>

record server =
  database :: database
  doorDashClient :: bool
  deliveries_posted :: "drive_delivery list"

record request =
  body :: json
  query :: "(string \<times> json) list"

text \<open>
  The four responses of the POST route: \<^verbatim>\<open>200 {success: false, error: 'Invalid payload ...'}\<close>,
  \<^verbatim>\<open>200 {success: true, message, order_id}\<close>, \<^verbatim>\<open>500 {error: 'Failed to store order'}\<close>
  and, from the outer \<^verbatim>\<open>catch\<close>, \<^verbatim>\<open>200 {success: false, error}\<close>.
\<close>

datatype reply = InvalidPayload | Processed json | StoreFailed | WebhookError

fun status_code :: "reply \<Rightarrow> nat" where
  "status_code InvalidPayload = 200"
| "status_code (Processed orderId) = 200"
| "status_code StoreFailed = 500"
| "status_code WebhookError = 200"

definition extractOrderData :: "json \<Rightarrow> json" where
  "extractOrderData b =
     (if \<not> truthy b then JNull
      else if truthy (field b ''order'') then field b ''order''
      else if truthy (field b ''data'') \<and> truthy (field (field b ''data'') ''order'')
      then field (field b ''data'') ''order''
      else if truthy (field b ''id'') \<or> truthy (field b ''order_id'') then b
      else case b of
             JArr (x # xs) \<Rightarrow> x
           | _ \<Rightarrow>
               (case field b ''orders'' of
                  JArr (x # xs) \<Rightarrow> x
                | _ \<Rightarrow> JNull))"

text \<open>
  \<^verbatim>\<open>const orderId = orderData.id || orderData.order_id || 'unknown'\<close>: the id under which
  the server looks the order up, marks it as sent and answers.
\<close>

definition webhook_orderId :: "json \<Rightarrow> json" where
  "webhook_orderId orderData =
     jors [field orderData ''id'', field orderData ''order_id'', JStr ''unknown'']"

text \<open>
  \<^verbatim>\<open>(orderData.type || orderData.order_type || '').toString().toLowerCase() === 'delivery'\<close>
\<close>

definition isDeliveryOrder :: "json \<Rightarrow> bool" where
  "isDeliveryOrder orderData =
     (toLowerCase (js_String (jors [field orderData ''type'', field orderData ''order_type'', JStr []]))
        = ''delivery'')"

text \<open>
  \<^verbatim>\<open>sendOrderToDoorDash\<close>. Without a client it returns \<^verbatim>\<open>null\<close>. Its own type test
  calls \<^verbatim>\<open>toLowerCase\<close> on the value as it is, outside the \<^verbatim>\<open>try\<close>: a value that is not
  a string rejects the promise. Inside the \<^verbatim>\<open>try\<close> the payload is converted and posted,
  and every failure ends in \<^verbatim>\<open>return null\<close>.
\<close>

definition sendOrderToDoorDash :: "world \<Rightarrow> server \<Rightarrow> json \<Rightarrow> (exn + doordash_response option) \<times> server" where
  "sendOrderToDoorDash w srv orderData =
     (if \<not> doorDashClient srv then (Inr None, srv)
      else
        case jors [field orderData ''type'', field orderData ''order_type'', JStr []] of
          JStr orderType \<Rightarrow>
            if toLowerCase orderType \<noteq> ''delivery'' then (Inr None, srv)
            else
              (case convertGloriaFoodToDrive (uuid w) orderData of
                 Inl x \<Rightarrow> (Inr None, srv)
               | Inr drivePayload \<Rightarrow>
                   (case createDriveDelivery (post_deliveries w) drivePayload of
                      Inl x \<Rightarrow> (Inr None, srv\<lparr>deliveries_posted := deliveries_posted srv @ [drivePayload]\<rparr>)
                    | Inr response \<Rightarrow>
                        (Inr (Some response),
                         srv\<lparr>deliveries_posted := deliveries_posted srv @ [drivePayload]\<rparr>)))
        | _ \<Rightarrow> (Inl TypeError, srv))"

text \<open>
  \<^verbatim>\<open>await this.sendOrderToDoorDash(orderData).then(...).catch(...)\<close>: on a response the
  order is marked as sent; a rejection is logged. Either way the route goes on.
\<close>

definition dispatch :: "world \<Rightarrow> server \<Rightarrow> json \<Rightarrow> server" where
  "dispatch w srv orderData =
     (case sendOrderToDoorDash w srv orderData of
        (Inr (Some resp), srv') \<Rightarrow>
          srv'\<lparr>database := db_markOrderSentToDoorDash (engine w) (database srv')
                              (js_String (webhook_orderId orderData)) (dd_id resp)\<rparr>
      | (_, srv') \<Rightarrow> srv')"

text \<open>
  \<^verbatim>\<open>displayOrder\<close> prints the saved row, which holds strings and numbers as read back
  from the table, and then asks the store for two statistics. On SQLite these two
  queries have no handler of their own.
\<close>

definition displayOrder :: "env \<Rightarrow> database \<Rightarrow> (exn + unit) \<times> database" where
  "displayOrder e db =
     (case kind db of
        SQLite \<Rightarrow>
          (if executes e CountOrders \<and> executes e (SelectRecent 60) then (Inr (), db)
           else (Inl StorageError, db))
      | MySQL \<Rightarrow> (Inr (), getRecentOrders_mysql e (snd (getOrderCount_mysql e db)) 60))"

text \<open>
  The order data of a request: taken from the body, or from the query parameters when
  the body yields nothing.
\<close>

definition request_orderData :: "request \<Rightarrow> json" where
  "request_orderData req =
     (let fromBody = extractOrderData (body req) in
      if \<not> truthy fromBody \<and> query req \<noteq> []
      then extractOrderData (JObj (query req)) else fromBody)"

text \<open>
  The POST route. The authentication check only computes a flag that nothing reads,
  and the logging has no effect on the store or the answer; neither is represented.
\<close>

definition webhook_post :: "world \<Rightarrow> server \<Rightarrow> request \<Rightarrow> reply \<times> server" where
  "webhook_post w srv req =
     (let orderData = request_orderData req in
      if \<not> truthy orderData then (InvalidPayload, srv)
      else
        let orderId = webhook_orderId orderData in
        case db_getOrderByGloriaFoodId (engine w) (database srv) (js_String orderId) of
          (Inl x, db1) \<Rightarrow> (WebhookError, srv\<lparr>database := db1\<rparr>)
        | (Inr existingBefore, db1) \<Rightarrow>
            (case db_insertOrUpdateOrder (engine w) db1 orderData of
               (None, db2) \<Rightarrow> (StoreFailed, srv\<lparr>database := db2\<rparr>)
             | (Some savedOrder, db2) \<Rightarrow>
                 (case existingBefore of
                    None \<Rightarrow>
                      (case displayOrder (engine w) db2 of
                         (Inl x, db3) \<Rightarrow> (WebhookError, srv\<lparr>database := db3\<rparr>)
                       | (Inr u, db3) \<Rightarrow>
                           if isDeliveryOrder orderData
                           then (Processed orderId, dispatch w (srv\<lparr>database := db3\<rparr>) orderData)
                           else (Processed orderId, srv\<lparr>database := db3\<rparr>))
                  | Some existing \<Rightarrow>
                      if isDeliveryOrder orderData \<and> sent_to_doordash existing = 0
                      then (Processed orderId, dispatch w (srv\<lparr>database := db2\<rparr>) orderData)
                      else (Processed orderId, srv\<lparr>database := db2\<rparr>))))"



text \<open>
  The id that the server derives for a request, and whether the store holds a record
  with a given id that is marked as sent to the partner.
\<close>

definition request_orderId :: "request \<Rightarrow> string" where
  "request_orderId req = js_String (webhook_orderId (request_orderData req))"

definition is_sent :: "database \<Rightarrow> string \<Rightarrow> bool" where
  "is_sent db orderId =
     (case find_order (orders db) orderId of None \<Rightarrow> False | Some r \<Rightarrow> sent_to_doordash r \<noteq> 0)"

section \<open>Concrete engines, partners and payloads for the examples\<close>

text \<open>An engine that accepts every connection and statement, every clock reading being \<open>t\<close>.\<close>

definition steady :: "string \<Rightarrow> env" where
  "steady t =
     \<lparr> connects = True, executes = (\<lambda>st. True),
       now_created = t, now_updated = t, now_fetched = t, now_sent = t \<rparr>"

text \<open>An engine that hands out connections and then raises on every statement.\<close>

definition no_such_table :: "string \<Rightarrow> env" where
  "no_such_table t =
     \<lparr> connects = True, executes = (\<lambda>st. False),
       now_created = t, now_updated = t, now_fetched = t, now_sent = t \<rparr>"

definition empty_db :: "backend \<Rightarrow> database" where
  "empty_db k = \<lparr> kind = k, orders = [], held = 0 \<rparr>"

text \<open>A partner that creates every delivery, and one that answers 500.\<close>

definition partner_ok :: "string \<Rightarrow> world" where
  "partner_ok t =
     \<lparr> engine = steady t,
       post_deliveries = (\<lambda>p. Response (JObj [(''delivery_id'', JStr ''D-1''), (''status'', JStr ''created'')])),
       uuid = ''00000000-0000-4000-8000-000000000000'' \<rparr>"

definition partner_500 :: "string \<Rightarrow> world" where
  "partner_500 t =
     \<lparr> engine = steady t,
       post_deliveries = (\<lambda>p. ErrorResponse 500 (JObj [(''message'', JStr ''Internal Server Error'')])),
       uuid = ''00000000-0000-4000-8000-000000000000'' \<rparr>"

definition fresh_server :: "backend \<Rightarrow> server" where
  "fresh_server k = \<lparr> database = empty_db k, doorDashClient = True, deliveries_posted = [] \<rparr>"

text \<open>The order of the specification's scenario, with a status that changes between calls.\<close>

definition order_555 :: "string \<Rightarrow> string \<Rightarrow> request" where
  "order_555 type st =
     \<lparr> body = JObj [(''id'', JStr ''555''), (''type'', JStr type), (''status'', JStr st),
                    (''client_first_name'', JStr ''Ana''), (''client_last_name'', JStr ''Cruz''),
                    (''client_phone'', JStr ''09171234567''),
                    (''client_address'', JStr ''12 Rizal St, Manila''),
                    (''total_price'', JStr ''25.00'')],
       query = [] \<rparr>"

text \<open>Root-level name fields together with a different nested \<^verbatim>\<open>customer.name\<close>.\<close>

definition ana_or_bob :: json where
  "ana_or_bob =
     JObj [(''id'', JStr ''555''),
           (''client_first_name'', JStr ''Ana''), (''client_last_name'', JStr ''Cruz''),
           (''customer'', JObj [(''name'', JStr ''Bob'')])]"

text \<open>Two payloads for order 7 that differ in items, status and price.\<close>

definition order_7_burger :: json where
  "order_7_burger =
     JObj [(''id'', JNum ''7''), (''status'', JStr ''pending''), (''total_price'', JStr ''10.00''),
           (''items'', JArr [JObj [(''name'', JStr ''Burger''), (''quantity'', JNum ''1'')]])]"

definition order_7_pizza :: json where
  "order_7_pizza =
     JObj [(''id'', JNum ''7''), (''status'', JStr ''accepted''), (''total_price'', JStr ''12.50''),
           (''items'', JArr [JObj [(''name'', JStr ''Pizza''), (''quantity'', JNum ''2'')]])]"



text \<open>An exchange that did not end in a 2xx response.\<close>

definition failed :: "http_result \<Rightarrow> bool" where
  "failed r = (case r of Response b \<Rightarrow> False | _ \<Rightarrow> True)"

text \<open>
  Three partners for the status lookup of delivery \<^verbatim>\<open>D1\<close>: the primary route answers
  404 and the others 200; the primary route answers 500 and the others 200; the first
  two routes answer 500 and the legacy route 404.
\<close>

definition delivery_D1 :: json where
  "delivery_D1 = JObj [(''delivery_id'', JStr ''D1''), (''status'', JStr ''created'')]"

definition lookup_404_then_200 :: "string \<Rightarrow> http_result" where
  "lookup_404_then_200 path =
     (if path = ''/deliveries/D1'' then ErrorResponse 404 JNull else Response delivery_D1)"

definition lookup_500_then_200 :: "string \<Rightarrow> http_result" where
  "lookup_500_then_200 path =
     (if path = ''/deliveries/D1'' then ErrorResponse 500 JNull else Response delivery_D1)"

definition lookup_500_500_404 :: "string \<Rightarrow> http_result" where
  "lookup_500_500_404 path =
     (if path = ''/deliveries/by_external_id/D1'' then ErrorResponse 404 JNull
      else ErrorResponse 500 JNull)"

text \<open>The stored records that carry a given external order id.\<close>

definition records_with_id :: "order list \<Rightarrow> string \<Rightarrow> order list" where
  "records_with_id rows orderId = filter (\<lambda>r. gloriafood_order_id r = orderId) rows"

text \<open>Two payloads without \<^verbatim>\<open>id\<close> and \<^verbatim>\<open>order_id\<close>.\<close>

definition idless_pickup :: json where
  "idless_pickup = JObj [(''type'', JStr ''pickup''), (''total_price'', JStr ''8.00'')]"

definition idless_delivery :: json where
  "idless_delivery = JObj [(''type'', JStr ''delivery''), (''customer_name'', JStr ''Ben'')]"

text \<open>The row that the upsert of a store binds, and what its conflict clause rewrites.\<close>

definition bound_row :: "backend \<Rightarrow> env \<Rightarrow> json \<Rightarrow> order" where
  "bound_row k e d = (case k of SQLite \<Rightarrow> order_row e d | MySQL \<Rightarrow> order_row_mysql e d)"

definition conflict_update :: "backend \<Rightarrow> order \<Rightarrow> order \<Rightarrow> order" where
  "conflict_update k = (case k of SQLite \<Rightarrow> on_conflict_update | MySQL \<Rightarrow> on_duplicate_key_update)"

text \<open>
  Order 7 on the MySQL store: upserted at \<open>t1\<close>, marked as sent at \<open>t2\<close>, upserted
  again at \<open>t3\<close>.
\<close>

definition order_7_once :: database where
  "order_7_once = snd (db_insertOrUpdateOrder (steady ''t1'') (empty_db MySQL) order_7_burger)"

definition order_7_marked :: database where
  "order_7_marked =
     db_markOrderSentToDoorDash (steady ''t2'') order_7_once (order_id_of order_7_burger) (JStr ''D-1'')"

definition order_7_twice :: database where
  "order_7_twice = snd (db_insertOrUpdateOrder (steady ''t3'') order_7_marked order_7_pizza)"

text \<open>
  The scenario of a single dispatch: order 555 arrives as a new delivery order and the
  partner creates the delivery; three status changes follow.
\<close>

definition after_first_dispatch :: server where
  "after_first_dispatch =
     snd (webhook_post (partner_ok ''t1'') (fresh_server SQLite) (order_555 ''delivery'' ''pending''))"


text \<open>The delivery that the conversion builds for order 555.\<close>

definition drive_555 :: drive_delivery where
  "drive_555 =
     \<lparr> external_delivery_id = ''555'',
       pickup_address = [],
       pickup_phone_number = JUndefined,
       pickup_business_name = JUndefined,
       dropoff_address = ''12 Rizal St, Manila'',
       dropoff_phone_number = ''09171234567'',
       dropoff_contact_given_name = JStr ''Ana'',
       dropoff_contact_family_name = JStr ''Cruz'',
       dropoff_instructions = JUndefined,
       order_value = Some (Fin False 2500 0) \<rparr>"

text \<open>Order 555 arrives as a new delivery order and the partner answers 500.\<close>

definition after_failed_dispatch :: server where
  "after_failed_dispatch =
     snd (webhook_post (partner_500 ''t1'') (fresh_server SQLite) (order_555 ''delivery'' ''pending''))"

text \<open>
  Whether \<^verbatim>\<open>normalizePhone\<close> returns for a phone value: it does for a string and for a
  falsy value.
\<close>

definition phone_accepted :: "json \<Rightarrow> bool" where
  "phone_accepted raw = (case jor raw (JStr []) of JStr s \<Rightarrow> True | _ \<Rightarrow> False)"

text \<open>A new delivery order whose phone is a number.\<close>

definition order_556_numeric_phone :: request where
  "order_556_numeric_phone =
     \<lparr> body = JObj [(''id'', JStr ''556''), (''type'', JStr ''delivery''),
                    (''client_phone'', JNum ''9171234567'')],
       query = [] \<rparr>"

section \<open>Properties\<close>

subsection \<open>Extraction precedence\<close>

text \<open>
  Claim C6. A payload with root-level \<^verbatim>\<open>client_first_name\<close>/\<^verbatim>\<open>client_last_name\<close> and a
  different nested \<^verbatim>\<open>customer.name\<close> should yield the root-level names joined by a space.
  The MySQL store does so; the SQLite store never reads the root-level pair and returns
  the nested \<^verbatim>\<open>customer.name\<close>.
\<close>

theorem C6_sqlite_returns_nested_customer_name:
  "extractCustomerName ana_or_bob = JStr ''Bob''
   \<and> extractCustomerName_mysql ana_or_bob = ''Ana Cruz''"
  by code_simp

subsection \<open>Conflict update\<close>

text \<open>
  Claim C7. A second upsert for a stored id should rewrite the items along with status,
  price, timestamps and raw payload. On the SQLite store the items of the first payload
  stay in the row, while the status and the price are those of the second payload; the
  MySQL store rewrites the items too.
\<close>

theorem C7_sqlite_keeps_first_items:
  "map items (orders (snd (insertOrUpdateOrder (steady ''t2'')
       (snd (insertOrUpdateOrder (steady ''t1'') (empty_db SQLite) order_7_burger)) order_7_pizza)))
     = [JSON_stringify (JArr [JObj [(''name'', JStr ''Burger''), (''quantity'', JNum ''1'')]])]
   \<and> map status (orders (snd (insertOrUpdateOrder (steady ''t2'')
       (snd (insertOrUpdateOrder (steady ''t1'') (empty_db SQLite) order_7_burger)) order_7_pizza)))
     = [JStr ''accepted'']
   \<and> map items (orders (snd (insertOrUpdateOrder_mysql (steady ''t2'')
       (snd (insertOrUpdateOrder_mysql (steady ''t1'') (empty_db MySQL) order_7_burger)) order_7_pizza)))
     = [JSON_stringify (JArr [JObj [(''name'', JStr ''Pizza''), (''quantity'', JNum ''2'')]])]"
  by code_simp

subsection \<open>Connections of the pool\<close>

text \<open>
  Claim C9. Every operation that checks a connection out of the pool should hand it back
  on every exit path. When the query raises, the lookup and the upsert of the MySQL store
  both return their default with the connection still checked out.
\<close>

theorem C9_connection_held_after_query_error:
  "getOrderByGloriaFoodId_mysql (no_such_table ''t'') (empty_db MySQL) ''555''
     = (None, \<lparr> kind = MySQL, orders = [], held = 1 \<rparr>)
   \<and> insertOrUpdateOrder_mysql (no_such_table ''t'') (empty_db MySQL) order_7_burger
     = (None, \<lparr> kind = MySQL, orders = [], held = 1 \<rparr>)"
  by code_simp

subsection \<open>Total price\<close>





subsection \<open>Status lookup\<close>

text \<open>
  Claim C5, as stated: a non-404 error from any endpoint ends the lookup at once with a
  generic failure, and a not-found failure is reported only when all three endpoints
  answered 404. Neither holds: after a 500 from the primary route the next route is
  still asked and its response returned, and after 500, 500, 404 the failure is the
  not-found one.
\<close>

theorem C5_fail_fast_counterexample:
  "getOrderStatus lookup_500_then_200 ''D1''
     = (Inr (status_response ''D1'' delivery_D1),
        [''/deliveries/D1'', ''/deliveries/external_delivery_id/D1''])
   \<and> getOrderStatus lookup_500_500_404 ''D1''
     = (Inl (NotFound404 JNull),
        [''/deliveries/D1'', ''/deliveries/external_delivery_id/D1'',
         ''/deliveries/by_external_id/D1''])"
  by code_simp

text \<open>
  Claim C5, amended: the three endpoints are asked in order, an error of any kind leads
  on to the next one, and the first response is returned. When all three fail, the
  failure is decided by the error of the last endpoint alone: not-found if it answered
  404, the generic failure with its status otherwise, and the generic failure with the
  error's message if it did not answer.
\<close>

theorem C5_status_lookup:
  assumes key: "trim i \<noteq> []"
    and paths: "tryEndpoints (trim i) = [p1, p2, p3]"
  shows
    "(get p1 = Response b \<longrightarrow> getOrderStatus get i = (Inr (status_response i b), [p1]))
   \<and> (failed (get p1) \<and> get p2 = Response b \<longrightarrow>
        getOrderStatus get i = (Inr (status_response i b), [p1, p2]))
   \<and> (failed (get p1) \<and> failed (get p2) \<and> get p3 = Response b \<longrightarrow>
        getOrderStatus get i = (Inr (status_response i b), [p1, p2, p3]))
   \<and> (failed (get p1) \<and> failed (get p2) \<and> get p3 = ErrorResponse code b \<longrightarrow>
        getOrderStatus get i =
          (if code = 404 then Inl (NotFound404 b) else Inl (ApiErrorStatus code b), [p1, p2, p3]))
   \<and> (failed (get p1) \<and> failed (get p2) \<and> get p3 = NoResponse msg \<longrightarrow>
        getOrderStatus get i =
          (Inl (ApiErrorMessage (if msg = [] then ''Unknown error'' else msg)), [p1, p2, p3]))"
  using key paths
  by (auto simp: getOrderStatus_def failed_def split: http_result.splits)

theorem C5_status_lookup_witness:
  "getOrderStatus lookup_404_then_200 ''D1''
     = (Inr (status_response ''D1'' delivery_D1),
        [''/deliveries/D1'', ''/deliveries/external_delivery_id/D1''])"
proof -
  have key: "trim ''D1'' \<noteq> []"
    by code_simp
  have paths: "tryEndpoints (trim ''D1'')
      = [''/deliveries/D1'', ''/deliveries/external_delivery_id/D1'', ''/deliveries/by_external_id/D1'']"
    by code_simp
  have h: "failed (lookup_404_then_200 ''/deliveries/D1'')
      \<and> lookup_404_then_200 ''/deliveries/external_delivery_id/D1'' = Response delivery_D1"
    by (simp add: failed_def lookup_404_then_200_def)
  show ?thesis
    by (rule C5_status_lookup [OF key paths, THEN conjunct2, THEN conjunct1, rule_format, OF h])
qed

subsection \<open>Upsert\<close>

lemma find_order_records:
  "find_order rows k = (case records_with_id rows k of [] \<Rightarrow> None | r # rs \<Rightarrow> Some r)"
  by (induction rows) (auto simp: find_order_def records_with_id_def)

lemma records_upsert:
  assumes "\<And>n r. gloriafood_order_id (upd n r) = gloriafood_order_id r"
  shows "records_with_id (upsert_rows upd new rows) k =
     (if k = gloriafood_order_id new
      then (if records_with_id rows k = [] then [new] else map (upd new) (records_with_id rows k))
      else records_with_id rows k)"
proof -
  have m: "filter (\<lambda>r. gloriafood_order_id r = k)
             (map (\<lambda>r. if gloriafood_order_id r = gloriafood_order_id new then upd new r else r) rows)
           = (if k = gloriafood_order_id new
              then map (upd new) (filter (\<lambda>r. gloriafood_order_id r = k) rows)
              else filter (\<lambda>r. gloriafood_order_id r = k) rows)"
    by (induction rows) (auto simp: assms)
  show ?thesis
    using m
    by (auto simp: upsert_rows_def find_order_records records_with_id_def split: list.splits)
qed

lemma key_mark_row: "gloriafood_order_id (mark_row now did tr r) = gloriafood_order_id r"
  by (simp add: mark_row_def)

lemma records_mark_same:
  "records_with_id (mark_rows now k did tr rows) k = map (mark_row now did tr) (records_with_id rows k)"
  by (induction rows) (simp_all add: mark_rows_def records_with_id_def key_mark_row)

lemma records_mark_other:
  "k \<noteq> k' \<Longrightarrow> records_with_id (mark_rows now k' did tr rows) k = records_with_id rows k"
  by (induction rows) (simp_all add: mark_rows_def records_with_id_def key_mark_row)

lemma key_on_conflict: "gloriafood_order_id (on_conflict_update n r) = gloriafood_order_id r"
  by (simp add: on_conflict_update_def)

lemma key_on_duplicate: "gloriafood_order_id (on_duplicate_key_update n r) = gloriafood_order_id r"
  by (simp add: on_duplicate_key_update_def)

lemma key_order_row: "gloriafood_order_id (order_row e d) = order_id_of d"
  by (simp add: order_row_def)

lemma key_order_row_mysql: "gloriafood_order_id (order_row_mysql e d) = order_id_of d"
  by (simp add: order_row_mysql_def)

text \<open>
  On an engine that accepts every connection and statement, the upsert of either store
  writes the bound row into the table and reads the record with its id back.
\<close>

lemma insert_steady:
  assumes "\<And>st. executes e st" and "\<not> nullish d"
  shows "insertOrUpdateOrder e db d =
     (find_order (upsert_rows on_conflict_update (order_row e d) (orders db)) (order_id_of d),
      db\<lparr>orders := upsert_rows on_conflict_update (order_row e d) (orders db)\<rparr>)"
  using assms
  by (simp add: insertOrUpdateOrder_def getOrderByGloriaFoodId_def key_order_row Let_def)

lemma insert_mysql_steady:
  assumes "connects e" and "\<And>st. executes e st" and "\<not> nullish d"
  shows "insertOrUpdateOrder_mysql e db d =
     (find_order (upsert_rows on_duplicate_key_update (order_row_mysql e d) (orders db)) (order_id_of d),
      db\<lparr>orders := upsert_rows on_duplicate_key_update (order_row_mysql e d) (orders db)\<rparr>)"
  using assms
  by (simp add: insertOrUpdateOrder_mysql_def getOrderByGloriaFoodId_mysql_def getConnection_def
      release_def key_order_row_mysql Let_def)

lemma order_id_of_idless:
  "field p ''id'' = JUndefined \<Longrightarrow> field p ''order_id'' = JUndefined \<Longrightarrow> order_id_of p = []"
  by (simp add: order_id_of_def otoString_def)

lemma db_insert_found:
  assumes "connects e" and "\<And>st. executes e st" and "\<not> nullish d"
  shows "fst (db_insertOrUpdateOrder e db d)
           = Some (hd (records_with_id (orders (snd (db_insertOrUpdateOrder e db d))) (order_id_of d)))
         \<and> records_with_id (orders (snd (db_insertOrUpdateOrder e db d))) (order_id_of d) \<noteq> []"
  using assms
  by (cases "kind db")
     (auto simp: db_insertOrUpdateOrder_def insert_steady insert_mysql_steady find_order_records
        records_upsert key_on_conflict key_on_duplicate key_order_row key_order_row_mysql
        split: list.splits)

lemma db_insert_count:
  assumes "connects e" and "\<And>st. executes e st" and "\<not> nullish d"
  shows "length (records_with_id (orders (snd (db_insertOrUpdateOrder e db d))) (order_id_of d))
           = (if records_with_id (orders db) (order_id_of d) = [] then 1
              else length (records_with_id (orders db) (order_id_of d)))"
  using assms
  by (cases "kind db")
     (simp_all add: db_insertOrUpdateOrder_def insert_steady insert_mysql_steady
        records_upsert key_on_conflict key_on_duplicate key_order_row key_order_row_mysql)

lemma hd_records_key:
  "records_with_id rows k \<noteq> [] \<Longrightarrow> gloriafood_order_id (hd (records_with_id rows k)) = k"
proof -
  assume "records_with_id rows k \<noteq> []"
  then have "hd (records_with_id rows k) \<in> set (records_with_id rows k)" by simp
  then show ?thesis by (simp add: records_with_id_def)
qed

text \<open>
  Claim C10. A payload with neither \<^verbatim>\<open>id\<close> nor \<^verbatim>\<open>order_id\<close> is not refused by
  \<^verbatim>\<open>insertOrUpdateOrder\<close>: on an engine that executes its statements, either store
  returns a record whose external order id is the empty string, and a second such
  payload lands in that same record, so that (the id being unique in the table before)
  exactly one record with the empty id is stored afterwards.
\<close>

theorem C10_idless_payloads_share_one_record:
  assumes e1: "connects e1" "\<And>st. executes e1 st"
    and e2: "connects e2" "\<And>st. executes e2 st"
    and p1: "\<not> nullish p1" "field p1 ''id'' = JUndefined" "field p1 ''order_id'' = JUndefined"
    and p2: "\<not> nullish p2" "field p2 ''id'' = JUndefined" "field p2 ''order_id'' = JUndefined"
    and unique: "length (records_with_id (orders db) []) \<le> 1"
  shows "map_option gloriafood_order_id (fst (db_insertOrUpdateOrder e1 db p1)) = Some []
    \<and> map_option gloriafood_order_id
         (fst (db_insertOrUpdateOrder e2 (snd (db_insertOrUpdateOrder e1 db p1)) p2)) = Some []
    \<and> length (records_with_id
         (orders (snd (db_insertOrUpdateOrder e2 (snd (db_insertOrUpdateOrder e1 db p1)) p2))) []) = 1"
proof -
  let ?db1 = "snd (db_insertOrUpdateOrder e1 db p1)"
  have k1: "order_id_of p1 = []" and k2: "order_id_of p2 = []"
    using p1 p2 by (simp_all add: order_id_of_idless)
  have f1: "map_option gloriafood_order_id (fst (db_insertOrUpdateOrder e1 db p1)) = Some []"
    using db_insert_found [OF e1 p1(1), of db] hd_records_key k1 by simp
  have f2: "map_option gloriafood_order_id (fst (db_insertOrUpdateOrder e2 ?db1 p2)) = Some []"
    using db_insert_found [OF e2 p2(1), of ?db1] hd_records_key k2 by simp
  have c1: "length (records_with_id (orders ?db1) []) = 1"
    using db_insert_count [OF e1 p1(1), of db] k1 unique
    by (cases "records_with_id (orders db) []") (simp_all split: if_splits)
  have c2: "length (records_with_id (orders (snd (db_insertOrUpdateOrder e2 ?db1 p2))) []) = 1"
    using db_insert_count [OF e2 p2(1), of ?db1] k2 c1
    by (cases "records_with_id (orders ?db1) []") (simp_all split: if_splits)
  from f1 f2 c2 show ?thesis by blast
qed

theorem C10_idless_payloads_share_one_record_witness:
  "map_option gloriafood_order_id
     (fst (db_insertOrUpdateOrder (steady ''t1'') (empty_db SQLite) idless_pickup)) = Some []
   \<and> map_option gloriafood_order_id
       (fst (db_insertOrUpdateOrder (steady ''t2'')
          (snd (db_insertOrUpdateOrder (steady ''t1'') (empty_db SQLite) idless_pickup))
          idless_delivery)) = Some []
   \<and> length (records_with_id
       (orders (snd (db_insertOrUpdateOrder (steady ''t2'')
          (snd (db_insertOrUpdateOrder (steady ''t1'') (empty_db SQLite) idless_pickup))
          idless_delivery))) []) = 1"
proof (rule C10_idless_payloads_share_one_record)
  show "connects (steady ''t1'')" "connects (steady ''t2'')"
    by (simp_all add: steady_def)
  show "\<And>st. executes (steady ''t1'') st" "\<And>st. executes (steady ''t2'') st"
    by (simp_all add: steady_def)
  show "\<not> nullish idless_pickup" "field idless_pickup ''id'' = JUndefined"
    "field idless_pickup ''order_id'' = JUndefined"
    by (simp_all add: idless_pickup_def)
  show "\<not> nullish idless_delivery" "field idless_delivery ''id'' = JUndefined"
    "field idless_delivery ''order_id'' = JUndefined"
    by (simp_all add: idless_delivery_def)
  show "length (records_with_id (orders (empty_db SQLite)) []) \<le> 1"
    by (simp add: empty_db_def records_with_id_def)
qed

lemma db_insert_records:
  assumes "connects e" and "\<And>st. executes e st" and "\<not> nullish d"
  shows "records_with_id (orders (snd (db_insertOrUpdateOrder e db d))) (order_id_of d)
           = (if records_with_id (orders db) (order_id_of d) = [] then [bound_row (kind db) e d]
              else map (conflict_update (kind db) (bound_row (kind db) e d))
                     (records_with_id (orders db) (order_id_of d)))"
  using assms
  by (cases "kind db")
     (simp_all add: db_insertOrUpdateOrder_def insert_steady insert_mysql_steady
        records_upsert key_on_conflict key_on_duplicate key_order_row key_order_row_mysql
        bound_row_def conflict_update_def)

lemma bound_row_times:
  "created_at (bound_row k e d) = jors [field d ''created_at'', field d ''order_date'', JStr (now_created e)]
   \<and> updated_at (bound_row k e d) = now_updated e"
  by (cases k) (simp_all add: bound_row_def order_row_def order_row_mysql_def)

lemma conflict_update_frame:
  "created_at (conflict_update k n r) = created_at r
   \<and> updated_at (conflict_update k n r) = updated_at n
   \<and> sent_to_doordash (conflict_update k n r) = sent_to_doordash r
   \<and> doordash_order_id (conflict_update k n r) = doordash_order_id r
   \<and> doordash_sent_at (conflict_update k n r) = doordash_sent_at r"
  by (cases k) (simp_all add: conflict_update_def on_conflict_update_def on_duplicate_key_update_def)

lemma db_mark_records:
  "records_with_id (orders (db_markOrderSentToDoorDash e db k did)) k = records_with_id (orders db) k
   \<or> (\<exists>tr. records_with_id (orders (db_markOrderSentToDoorDash e db k did)) k
          = map (mark_row (now_sent e) did tr) (records_with_id (orders db) k))"
  by (cases "kind db")
     (auto simp: db_markOrderSentToDoorDash_def markOrderSentToDoorDash_def
        markOrderSentToDoorDash_mysql_def getConnection_def release_def records_mark_same)

lemma mark_row_created: "created_at (mark_row now did tr r) = created_at r"
  by (simp add: mark_row_def)

text \<open>
  Claim C2. Two payloads with the same external order id, upserted one after the other
  into a store that did not know the id, leave exactly one record with that id; its
  \<^verbatim>\<open>created_at\<close> is the one computed by the first upsert and its \<^verbatim>\<open>updated_at\<close> the
  one computed by the second. Whatever dispatch state was recorded between the two
  (\<open>dbm\<close> is the store after an attempt to mark the order as sent, which takes effect or
  not), the second upsert leaves \<^verbatim>\<open>sent_to_doordash\<close>, \<^verbatim>\<open>doordash_order_id\<close> and
  \<^verbatim>\<open>doordash_sent_at\<close> as they were. Both stores, on an engine that executes its
  statements.
\<close>

theorem C2_idempotent_upsert:
  assumes e1: "connects e1" "\<And>st. executes e1 st"
    and e2: "connects e2" "\<And>st. executes e2 st"
    and p1: "\<not> nullish p1" and p2: "\<not> nullish p2"
    and same: "order_id_of p2 = order_id_of p1"
    and new: "records_with_id (orders db) (order_id_of p1) = []"
    and db1: "db1 = snd (db_insertOrUpdateOrder e1 db p1)"
    and dbm: "dbm = db_markOrderSentToDoorDash em db1 (order_id_of p1) did"
    and db2: "db2 = snd (db_insertOrUpdateOrder e2 dbm p2)"
  shows "length (records_with_id (orders db2) (order_id_of p1)) = 1
    \<and> map created_at (records_with_id (orders db2) (order_id_of p1))
        = [jors [field p1 ''created_at'', field p1 ''order_date'', JStr (now_created e1)]]
    \<and> map updated_at (records_with_id (orders db2) (order_id_of p1)) = [now_updated e2]
    \<and> map sent_to_doordash (records_with_id (orders db2) (order_id_of p1))
        = map sent_to_doordash (records_with_id (orders dbm) (order_id_of p1))
    \<and> map doordash_order_id (records_with_id (orders db2) (order_id_of p1))
        = map doordash_order_id (records_with_id (orders dbm) (order_id_of p1))
    \<and> map doordash_sent_at (records_with_id (orders db2) (order_id_of p1))
        = map doordash_sent_at (records_with_id (orders dbm) (order_id_of p1))"
proof -
  let ?k = "order_id_of p1"
  have r1: "records_with_id (orders db1) ?k = [bound_row (kind db) e1 p1]"
    using db_insert_records [OF e1 p1, of db] new db1 by simp
  obtain r0 where rm: "records_with_id (orders dbm) ?k = [r0]"
    and c0: "created_at r0 = created_at (bound_row (kind db) e1 p1)"
    using db_mark_records [of em db1 ?k did] r1 dbm mark_row_created by auto
  have r2: "records_with_id (orders db2) ?k
      = [conflict_update (kind dbm) (bound_row (kind dbm) e2 p2) r0]"
    using db_insert_records [OF e2 p2, of dbm] rm db2 same by simp
  show ?thesis
    using r2 rm c0 by (simp add: conflict_update_frame bound_row_times)
qed

theorem C2_idempotent_upsert_witness:
  "length (records_with_id (orders order_7_twice) ''7'') = 1
   \<and> map created_at (records_with_id (orders order_7_twice) ''7'') = [JStr ''t1'']
   \<and> map updated_at (records_with_id (orders order_7_twice) ''7'') = [''t3'']
   \<and> map sent_to_doordash (records_with_id (orders order_7_twice) ''7'') = [1]
   \<and> map doordash_order_id (records_with_id (orders order_7_twice) ''7'') = [JStr ''D-1'']
   \<and> map doordash_sent_at (records_with_id (orders order_7_twice) ''7'') = [JStr ''t2'']"
proof -
  have e: "connects (steady t)" "\<And>st. executes (steady t) st" for t
    by (simp_all add: steady_def)
  have p: "\<not> nullish order_7_burger" "\<not> nullish order_7_pizza"
    by (simp_all add: order_7_burger_def order_7_pizza_def)
  have k: "order_id_of order_7_burger = ''7''" "order_id_of order_7_pizza = order_id_of order_7_burger"
    by code_simp+
  have new: "records_with_id (orders (empty_db MySQL)) (order_id_of order_7_burger) = []"
    by (simp add: empty_db_def records_with_id_def)
  have marked: "map sent_to_doordash (records_with_id (orders order_7_marked) ''7'') = [1]"
    "map doordash_order_id (records_with_id (orders order_7_marked) ''7'') = [JStr ''D-1'']"
    "map doordash_sent_at (records_with_id (orders order_7_marked) ''7'') = [JStr ''t2'']"
    by code_simp+
  have c: "jors [field order_7_burger ''created_at'', field order_7_burger ''order_date'',
                 JStr (now_created (steady ''t1''))] = JStr ''t1''"
    by code_simp
  have u: "now_updated (steady ''t3'') = ''t3''"
    by (simp add: steady_def)
  from C2_idempotent_upsert [OF e e p k(2) new order_7_once_def order_7_marked_def order_7_twice_def]
  show ?thesis
    unfolding k(1) marked c u .
qed

subsection \<open>Dispatch\<close>

lemma find_upsert_other:
  assumes "\<And>n r. gloriafood_order_id (upd n r) = gloriafood_order_id r"
    and "k \<noteq> gloriafood_order_id new"
  shows "find_order (upsert_rows upd new rows) k = find_order rows k"
  using assms by (simp add: find_order_records records_upsert)

lemma find_upsert_same:
  assumes "\<And>n r. gloriafood_order_id (upd n r) = gloriafood_order_id r"
  shows "find_order (upsert_rows upd new rows) (gloriafood_order_id new)
     = (case find_order rows (gloriafood_order_id new) of None \<Rightarrow> Some new | Some r \<Rightarrow> Some (upd new r))"
  using assms by (simp add: find_order_records records_upsert split: list.splits)

lemma is_sent_upsert:
  assumes "\<And>n r. gloriafood_order_id (upd n r) = gloriafood_order_id r"
    and "\<And>n r. sent_to_doordash (upd n r) = sent_to_doordash r"
    and "sent_to_doordash new = 0"
  shows "is_sent (db\<lparr>orders := upsert_rows upd new (orders db)\<rparr>) k = is_sent db k"
proof (cases "k = gloriafood_order_id new")
  case True
  then show ?thesis
    using assms(2,3) by (simp add: is_sent_def find_upsert_same assms(1) split: option.splits)
next
  case False
  then show ?thesis
    by (simp add: is_sent_def find_upsert_other assms(1))
qed

lemma is_sent_held [simp]: "is_sent (db\<lparr>held := h\<rparr>) k = is_sent db k"
  by (simp add: is_sent_def)

lemma insert_is_sent: "is_sent (snd (insertOrUpdateOrder e db d)) k = is_sent db k"
proof -
  have u: "is_sent (db\<lparr>orders := upsert_rows on_conflict_update (order_row e d) (orders db)\<rparr>) k = is_sent db k"
    by (rule is_sent_upsert) (simp_all add: on_conflict_update_def order_row_def)
  show ?thesis
    using u by (simp add: insertOrUpdateOrder_def Let_def split: sum.splits)
qed

lemma insert_mysql_is_sent: "is_sent (snd (insertOrUpdateOrder_mysql e db d)) k = is_sent db k"
proof -
  have u: "is_sent (db'\<lparr>orders := upsert_rows on_duplicate_key_update (order_row_mysql e d) (orders db')\<rparr>) k
      = is_sent db' k" for db'
    by (rule is_sent_upsert) (simp_all add: on_duplicate_key_update_def order_row_mysql_def)
  have o: "orders (db\<lparr>held := h\<rparr>) = orders db" for h by simp
  show ?thesis
    using u [of "db\<lparr>held := Suc (held db)\<rparr>"]
    by (simp add: insertOrUpdateOrder_mysql_def getOrderByGloriaFoodId_mysql_def getConnection_def
        release_def Let_def is_sent_def)
qed

lemma db_insert_is_sent: "is_sent (snd (db_insertOrUpdateOrder e db d)) k = is_sent db k"
  by (cases "kind db") (simp_all add: db_insertOrUpdateOrder_def insert_is_sent insert_mysql_is_sent)
lemma db_get_executes:
  assumes "executes e (SelectByOrderId k)"
  shows "db_getOrderByGloriaFoodId e db k
     = (Inr (if kind db = MySQL \<and> \<not> connects e then None else find_order (orders db) k), db)"
  using assms
  by (cases "kind db")
     (simp_all add: db_getOrderByGloriaFoodId_def getOrderByGloriaFoodId_def
        getOrderByGloriaFoodId_mysql_def getConnection_def release_def)





lemma displayOrder_steady:
  assumes "connects e" and "\<And>st. executes e st"
  shows "displayOrder e db = (Inr (), db)"
  using assms
  by (cases "kind db")
     (simp_all add: displayOrder_def getOrderCount_mysql_def getRecentOrders_mysql_def
        getConnection_def release_def)

lemma createDriveDelivery_failed:
  "failed (post p) \<Longrightarrow> createDriveDelivery post p = Inl ApiError"
  by (cases "post p") (simp_all add: createDriveDelivery_def failed_def)

lemma dispatch_posts:
  assumes "doorDashClient srv"
    and "jors [field od ''type'', field od ''order_type'', JStr []] = JStr t"
    and "toLowerCase t = ''delivery''"
    and "convertGloriaFoodToDrive (uuid w) od = Inr p"
  shows "deliveries_posted (dispatch w srv od) = deliveries_posted srv @ [p]"
  using assms
  by (simp add: dispatch_def sendOrderToDoorDash_def split: sum.splits)

lemma dispatch_failed:
  assumes "doorDashClient srv"
    and "jors [field od ''type'', field od ''order_type'', JStr []] = JStr t"
    and "toLowerCase t = ''delivery''"
    and "convertGloriaFoodToDrive (uuid w) od = Inr p"
    and "failed (post_deliveries w p)"
  shows "database (dispatch w srv od) = database srv"
  using assms
  by (simp add: dispatch_def sendOrderToDoorDash_def createDriveDelivery_failed)

lemma db_mark_records_empty:
  "(records_with_id (orders (db_markOrderSentToDoorDash e db k' did)) k = [])
     = (records_with_id (orders db) k = [])"
  by (cases "kind db"; cases "k = k'")
     (simp_all add: db_markOrderSentToDoorDash_def markOrderSentToDoorDash_def
        markOrderSentToDoorDash_mysql_def getConnection_def release_def
        records_mark_same records_mark_other)

lemma dispatch_records_empty:
  "(records_with_id (orders (database (dispatch w srv od))) k = [])
     = (records_with_id (orders (database srv)) k = [])"
  by (simp add: dispatch_def sendOrderToDoorDash_def db_mark_records_empty
      split: sum.splits option.splits json.splits prod.splits)

lemma delivery_type_truthy:
  assumes "jors [field od ''type'', field od ''order_type'', JStr []] = JStr t"
    and "toLowerCase t = ''delivery''"
  shows "truthy od \<and> \<not> nullish od \<and> isDeliveryOrder od"
proof -
  have "toLowerCase [] = []" by (simp add: toLowerCase_def)
  then have "t \<noteq> []" using assms(2) by auto
  then have "\<exists>kvs. od = JObj kvs"
    using assms(1) by (cases od) (auto split: if_splits)
  then show ?thesis
    using assms by (auto simp: isDeliveryOrder_def)
qed

lemma webhook_post_steady:
  assumes e: "connects (engine w)" "\<And>st. executes (engine w) st"
    and od: "truthy (request_orderData req)" "\<not> nullish (request_orderData req)"
  shows "webhook_post w srv req =
     (Processed (webhook_orderId (request_orderData req)),
      if isDeliveryOrder (request_orderData req) \<and> \<not> is_sent (database srv) (request_orderId req)
      then dispatch w (srv\<lparr>database := snd (db_insertOrUpdateOrder (engine w) (database srv)
                                              (request_orderData req))\<rparr>) (request_orderData req)
      else srv\<lparr>database := snd (db_insertOrUpdateOrder (engine w) (database srv)
                                   (request_orderData req))\<rparr>)"
proof -
  let ?od = "request_orderData req"
  let ?ins = "db_insertOrUpdateOrder (engine w) (database srv) ?od"
  have X: "js_String (webhook_orderId ?od) = request_orderId req"
    by (simp add: request_orderId_def)
  have look: "db_getOrderByGloriaFoodId (engine w) (database srv) (request_orderId req)
      = (Inr (find_order (orders (database srv)) (request_orderId req)), database srv)"
    using e by (simp add: db_get_executes)
  obtain saved db2 where ins: "?ins = (Some saved, db2)"
    using db_insert_found [OF e od(2), of "database srv"] by (cases ?ins) auto
  have disp: "displayOrder (engine w) db2 = (Inr (), db2)"
    using e by (rule displayOrder_steady)
  show ?thesis
  proof (cases "find_order (orders (database srv)) (request_orderId req)")
    case None
    then have "\<not> is_sent (database srv) (request_orderId req)"
      by (simp add: is_sent_def)
    then show ?thesis
      using od(1) None
      by (simp add: webhook_post_def X look Let_def) (simp add: ins disp)
  next
    case (Some r)
    then have "is_sent (database srv) (request_orderId req) = (sent_to_doordash r \<noteq> 0)"
      by (simp add: is_sent_def)
    then show ?thesis
      using od(1) Some
      by (simp add: webhook_post_def X look Let_def) (simp add: ins)
  qed
qed

lemma webhook_post_only_posts_delivery:
  assumes "deliveries_posted (snd (webhook_post w srv req)) \<noteq> deliveries_posted srv"
  shows "isDeliveryOrder (request_orderData req)"
proof (rule ccontr)
  assume "\<not> isDeliveryOrder (request_orderData req)"
  then have "deliveries_posted (snd (webhook_post w srv req)) = deliveries_posted srv"
    by (simp add: webhook_post_def Let_def split: prod.splits sum.splits option.splits)
  then show False using assms by simp
qed

text \<open>
  Claim C3, as stated: for every inbound order event a dispatch is attempted if and only
  if the type lower-cases to \<^verbatim>\<open>delivery\<close>. It fails for an update of an order that is
  already marked as sent: the type is \<^verbatim>\<open>delivery\<close> and nothing is posted.
\<close>

theorem C3_update_of_sent_order_counterexample:
  "isDeliveryOrder (request_orderData (order_555 ''delivery'' ''accepted''))
   \<and> deliveries_posted (snd (webhook_post (partner_ok ''t2'') after_first_dispatch
         (order_555 ''delivery'' ''accepted''))) = deliveries_posted after_first_dispatch"
  by code_simp

lemma truthy_not_nullish: "truthy v \<Longrightarrow> \<not> nullish v"
  by (cases v) simp_all

lemma normalizePhone_accepted:
  "(\<exists>s. normalizePhone raw = Inr s) = phone_accepted raw"
  by (cases "jor raw (JStr [])") (simp_all add: normalizePhone_def phone_accepted_def)

lemma convert_accepted:
  "(\<exists>p. convertGloriaFoodToDrive u od = Inr p)
     = (phone_accepted (field od ''restaurant_phone'')
        \<and> phone_accepted (jors [field od ''client_phone'', ofield (field od ''client'') ''phone'', JStr []]))"
proof -
  let ?rp = "field od ''restaurant_phone''"
  let ?ph = "jors [field od ''client_phone'', ofield (field od ''client'') ''phone'', JStr []]"
  have rp: "phone_accepted ?rp = (\<not> truthy ?rp \<or> (\<exists>s. normalizePhone ?rp = Inr s))"
    using normalizePhone_accepted [of ?rp] by (auto simp: phone_accepted_def jor_def)
  show ?thesis
    unfolding rp normalizePhone_accepted [of ?ph, symmetric]
    by (cases "normalizePhone ?rp"; cases "normalizePhone ?ph")
       (simp_all add: convertGloriaFoodToDrive_def Let_def)
qed

lemma dispatch_posted:
  "deliveries_posted (dispatch w srv od) =
     (case (jors [field od ''type'', field od ''order_type'', JStr []],
            convertGloriaFoodToDrive (uuid w) od) of
        (JStr t, Inr p) \<Rightarrow>
          if doorDashClient srv \<and> toLowerCase t = ''delivery''
          then deliveries_posted srv @ [p] else deliveries_posted srv
      | _ \<Rightarrow> deliveries_posted srv)"
  by (simp add: dispatch_def sendOrderToDoorDash_def
      split: sum.splits option.splits json.splits prod.splits)

text \<open>
  Claim C3, amended. For every inbound order event, a delivery is posted to the partner
  only if the type (\<^verbatim>\<open>type\<close>, else \<^verbatim>\<open>order_type\<close>) lower-cases to \<^verbatim>\<open>delivery\<close>: never
  for \<^verbatim>\<open>pickup\<close>, \<^verbatim>\<open>dine-in\<close> or an absent type. On an engine that executes its
  statements every event that carries order data is answered with success and its order
  is stored, and a delivery is posted exactly when a client is configured, the type is a
  string that lower-cases to \<^verbatim>\<open>delivery\<close>, the order is not yet marked as sent (it is
  new to the server, or its record is still unsent), and the conversion to the partner's
  payload returns; the delivery posted is the one the conversion built. The conversion
  returns exactly when \<^verbatim>\<open>restaurant_phone\<close> and the client's phone are each a string or
  falsy; otherwise the dispatch ends inside \<^verbatim>\<open>sendOrderToDoorDash\<close> before anything is
  posted.
\<close>

theorem C3_dispatch_gating:
  "(deliveries_posted (snd (webhook_post w srv req)) \<noteq> deliveries_posted srv
      \<longrightarrow> isDeliveryOrder (request_orderData req))
   \<and> (connects (engine w) \<and> (\<forall>st. executes (engine w) st) \<and> truthy (request_orderData req)
      \<longrightarrow> fst (webhook_post w srv req) = Processed (webhook_orderId (request_orderData req))
        \<and> records_with_id (orders (database (snd (webhook_post w srv req))))
             (order_id_of (request_orderData req)) \<noteq> []
        \<and> deliveries_posted (snd (webhook_post w srv req))
            = (case (jors [field (request_orderData req) ''type'',
                           field (request_orderData req) ''order_type'', JStr []],
                     convertGloriaFoodToDrive (uuid w) (request_orderData req)) of
                 (JStr t, Inr p) \<Rightarrow>
                   if doorDashClient srv \<and> toLowerCase t = ''delivery''
                      \<and> \<not> is_sent (database srv) (request_orderId req)
                   then deliveries_posted srv @ [p] else deliveries_posted srv
               | _ \<Rightarrow> deliveries_posted srv))
   \<and> ((\<exists>p. convertGloriaFoodToDrive (uuid w) (request_orderData req) = Inr p)
        = (phone_accepted (field (request_orderData req) ''restaurant_phone'')
           \<and> phone_accepted (jors [field (request_orderData req) ''client_phone'',
                                    ofield (field (request_orderData req) ''client'') ''phone'',
                                    JStr []])))"
proof (intro conjI impI)
  assume "deliveries_posted (snd (webhook_post w srv req)) \<noteq> deliveries_posted srv"
  then show "isDeliveryOrder (request_orderData req)"
    by (rule webhook_post_only_posts_delivery)
next
  let ?od = "request_orderData req"
  let ?tv = "jors [field ?od ''type'', field ?od ''order_type'', JStr []]"
  let ?db2 = "snd (db_insertOrUpdateOrder (engine w) (database srv) ?od)"
  let ?s = "srv\<lparr>database := ?db2\<rparr>"
  assume h: "connects (engine w) \<and> (\<forall>st. executes (engine w) st) \<and> truthy ?od"
  then have e: "connects (engine w)" "\<And>st. executes (engine w) st"
    and od: "truthy ?od" "\<not> nullish ?od"
    by (simp_all add: truthy_not_nullish)
  note step = webhook_post_steady [OF e od, of srv]
  have stored: "records_with_id (orders ?db2) (order_id_of ?od) \<noteq> []"
    using db_insert_found [OF e od(2), of "database srv"] by simp
  show "fst (webhook_post w srv req) = Processed (webhook_orderId ?od)"
    by (simp add: step)
  show "records_with_id (orders (database (snd (webhook_post w srv req)))) (order_id_of ?od) \<noteq> []"
    using stored by (simp add: step dispatch_records_empty)
  have isd: "isDeliveryOrder ?od = (toLowerCase (js_String ?tv) = ''delivery'')"
    by (simp only: isDeliveryOrder_def)
  have posted: "deliveries_posted (snd (webhook_post w srv req))
      = (if isDeliveryOrder ?od \<and> \<not> is_sent (database srv) (request_orderId req)
         then deliveries_posted (dispatch w ?s ?od) else deliveries_posted srv)"
    by (simp add: step)
  show "deliveries_posted (snd (webhook_post w srv req))
      = (case (?tv, convertGloriaFoodToDrive (uuid w) ?od) of
           (JStr t, Inr p) \<Rightarrow>
             if doorDashClient srv \<and> toLowerCase t = ''delivery''
                \<and> \<not> is_sent (database srv) (request_orderId req)
             then deliveries_posted srv @ [p] else deliveries_posted srv
         | _ \<Rightarrow> deliveries_posted srv)"
    unfolding posted isd dispatch_posted [of w ?s ?od]
    by (cases ?tv; cases "convertGloriaFoodToDrive (uuid w) ?od") auto
next
  show "(\<exists>p. convertGloriaFoodToDrive (uuid w) (request_orderData req) = Inr p)
        = (phone_accepted (field (request_orderData req) ''restaurant_phone'')
           \<and> phone_accepted (jors [field (request_orderData req) ''client_phone'',
                                    ofield (field (request_orderData req) ''client'') ''phone'',
                                    JStr []]))"
    by (rule convert_accepted)
qed

theorem C3_dispatch_gating_witness:
  "deliveries_posted (snd (webhook_post (partner_ok ''t1'') (fresh_server SQLite)
       (order_555 ''DELIVERY'' ''pending''))) = [drive_555]
   \<and> deliveries_posted (snd (webhook_post (partner_ok ''t1'') (fresh_server SQLite)
       (order_555 ''pickup'' ''pending''))) = []
   \<and> deliveries_posted (snd (webhook_post (partner_ok ''t1'') (fresh_server SQLite)
       order_556_numeric_phone)) = []"
proof -
  have e: "connects (engine (partner_ok ''t1''))
      \<and> (\<forall>st. executes (engine (partner_ok ''t1'')) st)"
    by (simp add: partner_ok_def steady_def)
  have client: "doorDashClient (fresh_server SQLite)"
    by (simp add: fresh_server_def)
  have none_posted: "deliveries_posted (fresh_server SQLite) = []"
    by (simp add: fresh_server_def)
  have unsent: "\<not> is_sent (database (fresh_server SQLite)) k" for k
    by (simp add: is_sent_def fresh_server_def empty_db_def find_order_def)
  have low: "toLowerCase ''DELIVERY'' = ''delivery''" "toLowerCase ''pickup'' \<noteq> ''delivery''"
    by code_simp+
  have od1: "truthy (request_orderData (order_555 ''DELIVERY'' ''pending''))"
    and ty1: "jors [field (request_orderData (order_555 ''DELIVERY'' ''pending'')) ''type'',
           field (request_orderData (order_555 ''DELIVERY'' ''pending'')) ''order_type'', JStr []]
       = JStr ''DELIVERY''"
    and conv1: "convertGloriaFoodToDrive (uuid (partner_ok ''t1''))
      (request_orderData (order_555 ''DELIVERY'' ''pending'')) = Inr drive_555"
    by code_simp+
  have od2: "truthy (request_orderData (order_555 ''pickup'' ''pending''))"
    and ty2: "jors [field (request_orderData (order_555 ''pickup'' ''pending'')) ''type'',
           field (request_orderData (order_555 ''pickup'' ''pending'')) ''order_type'', JStr []]
       = JStr ''pickup''"
    and conv2: "convertGloriaFoodToDrive (uuid (partner_ok ''t1''))
      (request_orderData (order_555 ''pickup'' ''pending'')) = Inr drive_555"
    by code_simp+
  have od3: "truthy (request_orderData order_556_numeric_phone)"
    and ty3: "jors [field (request_orderData order_556_numeric_phone) ''type'',
           field (request_orderData order_556_numeric_phone) ''order_type'', JStr []]
       = JStr ''delivery''"
    and conv3: "convertGloriaFoodToDrive (uuid (partner_ok ''t1''))
      (request_orderData order_556_numeric_phone) = Inl TypeError"
    by code_simp+
  have a: "deliveries_posted (snd (webhook_post (partner_ok ''t1'') (fresh_server SQLite)
       (order_555 ''DELIVERY'' ''pending''))) = [drive_555]"
    using C3_dispatch_gating [THEN conjunct2, THEN conjunct1, rule_format, OF conjI [OF e [THEN conjunct1] conjI [OF e [THEN conjunct2] od1]],
        THEN conjunct2, THEN conjunct2, of "fresh_server SQLite"]
    unfolding ty1 conv1 none_posted
    by (simp add: client low unsent)
  have b: "deliveries_posted (snd (webhook_post (partner_ok ''t1'') (fresh_server SQLite)
       (order_555 ''pickup'' ''pending''))) = []"
    using C3_dispatch_gating [THEN conjunct2, THEN conjunct1, rule_format, OF conjI [OF e [THEN conjunct1] conjI [OF e [THEN conjunct2] od2]],
        THEN conjunct2, THEN conjunct2, of "fresh_server SQLite"]
    unfolding ty2 conv2 none_posted
    by (simp add: low)
  have c: "deliveries_posted (snd (webhook_post (partner_ok ''t1'') (fresh_server SQLite)
       order_556_numeric_phone)) = []"
    using C3_dispatch_gating [THEN conjunct2, THEN conjunct1, rule_format, OF conjI [OF e [THEN conjunct1] conjI [OF e [THEN conjunct2] od3]],
        THEN conjunct2, THEN conjunct2, of "fresh_server SQLite"]
    unfolding ty3 conv3 none_posted
    by simp
  from a b c show ?thesis by blast
qed

lemma dispatch_client: "doorDashClient (dispatch w srv od) = doorDashClient srv"
  by (simp add: dispatch_def sendOrderToDoorDash_def
      split: sum.splits option.splits json.splits prod.splits)

text \<open>
  Claim C4. A delivery order that is not yet marked as sent is dispatched, and the
  partner call fails (an error response or no response). Then the webhook is still
  answered with 200 and success, the request was posted, and the stored record exists
  and is not marked as sent. A later event for the same id, again of type delivery, is
  dispatched again: a second request is posted. Both events with a configured client, an
  engine that executes its statements, and payloads that the conversion accepts; the
  order is stored under the id that the server derives.
\<close>

theorem C4_retry_after_failed_dispatch:
  assumes client: "doorDashClient srv"
    and e1: "connects (engine w1)" "\<And>st. executes (engine w1) st"
    and e2: "connects (engine w2)" "\<And>st. executes (engine w2) st"
    and od1: "od1 = request_orderData r1" and od2: "od2 = request_orderData r2"
    and ty1: "jors [field od1 ''type'', field od1 ''order_type'', JStr []] = JStr t1"
             "toLowerCase t1 = ''delivery''"
    and ty2: "jors [field od2 ''type'', field od2 ''order_type'', JStr []] = JStr t2"
             "toLowerCase t2 = ''delivery''"
    and conv1: "convertGloriaFoodToDrive (uuid w1) od1 = Inr p1"
    and conv2: "convertGloriaFoodToDrive (uuid w2) od2 = Inr p2"
    and key: "order_id_of od1 = request_orderId r1"
    and same: "request_orderId r2 = request_orderId r1"
    and unsent: "\<not> is_sent (database srv) (request_orderId r1)"
    and fails: "failed (post_deliveries w1 p1)"
    and srv1: "srv1 = snd (webhook_post w1 srv r1)"
  shows "fst (webhook_post w1 srv r1) = Processed (webhook_orderId od1)
    \<and> status_code (fst (webhook_post w1 srv r1)) = 200
    \<and> deliveries_posted srv1 = deliveries_posted srv @ [p1]
    \<and> records_with_id (orders (database srv1)) (request_orderId r1) \<noteq> []
    \<and> \<not> is_sent (database srv1) (request_orderId r1)
    \<and> deliveries_posted (snd (webhook_post w2 srv1 r2)) = deliveries_posted srv @ [p1, p2]"
proof -
  let ?db2 = "snd (db_insertOrUpdateOrder (engine w1) (database srv) od1)"
  let ?s = "srv\<lparr>database := ?db2\<rparr>"
  note d1 = delivery_type_truthy [OF ty1]
  note d2 = delivery_type_truthy [OF ty2]
  have first: "webhook_post w1 srv r1 = (Processed (webhook_orderId od1), dispatch w1 ?s od1)"
    using webhook_post_steady [OF e1, of r1 srv] d1 unsent by (simp add: od1)
  have s1: "srv1 = dispatch w1 ?s od1"
    by (simp add: srv1 first)
  have posted1: "deliveries_posted srv1 = deliveries_posted srv @ [p1]"
    using dispatch_posts [OF _ ty1 conv1, of ?s] client by (simp add: s1)
  have db1: "database srv1 = ?db2"
    using dispatch_failed [OF _ ty1 conv1 fails, of ?s] client by (simp add: s1)
  have stored: "records_with_id (orders (database srv1)) (request_orderId r1) \<noteq> []"
    using db_insert_found [OF e1, of od1 "database srv"] d1 by (simp add: db1 key)
  have still: "\<not> is_sent (database srv1) (request_orderId r1)"
    using unsent by (simp add: db1 db_insert_is_sent)
  have client1: "doorDashClient srv1"
    using client by (simp add: s1 dispatch_client)
  let ?s2 = "srv1\<lparr>database := snd (db_insertOrUpdateOrder (engine w2) (database srv1) od2)\<rparr>"
  have second: "webhook_post w2 srv1 r2 = (Processed (webhook_orderId od2), dispatch w2 ?s2 od2)"
    using webhook_post_steady [OF e2, of r2 srv1] d2 still same by (simp add: od2)
  have posted2: "deliveries_posted (snd (webhook_post w2 srv1 r2)) = deliveries_posted srv @ [p1, p2]"
    using dispatch_posts [OF _ ty2 conv2, of ?s2] client1 by (simp add: second posted1)
  show ?thesis
    using first posted1 stored still posted2 by simp
qed

theorem C4_retry_after_failed_dispatch_witness:
  "status_code (fst (webhook_post (partner_500 ''t1'') (fresh_server SQLite)
       (order_555 ''delivery'' ''pending''))) = 200
   \<and> deliveries_posted after_failed_dispatch = [drive_555]
   \<and> \<not> is_sent (database after_failed_dispatch) ''555''
   \<and> deliveries_posted (snd (webhook_post (partner_ok ''t2'') after_failed_dispatch
       (order_555 ''delivery'' ''accepted''))) = [drive_555, drive_555]"
proof -
  have client: "doorDashClient (fresh_server SQLite)"
    by (simp add: fresh_server_def)
  have e1: "connects (engine (partner_500 ''t1''))" "\<And>st. executes (engine (partner_500 ''t1'')) st"
    by (simp_all add: partner_500_def steady_def)
  have e2: "connects (engine (partner_ok ''t2''))" "\<And>st. executes (engine (partner_ok ''t2'')) st"
    by (simp_all add: partner_ok_def steady_def)
  have ty1: "jors [field (request_orderData (order_555 ''delivery'' ''pending'')) ''type'',
                   field (request_orderData (order_555 ''delivery'' ''pending'')) ''order_type'', JStr []]
      = JStr ''delivery''"
    by code_simp
  have ty2: "jors [field (request_orderData (order_555 ''delivery'' ''accepted'')) ''type'',
                   field (request_orderData (order_555 ''delivery'' ''accepted'')) ''order_type'', JStr []]
      = JStr ''delivery''"
    by code_simp
  have low: "toLowerCase ''delivery'' = ''delivery''"
    by code_simp
  have conv1: "convertGloriaFoodToDrive (uuid (partner_500 ''t1''))
      (request_orderData (order_555 ''delivery'' ''pending'')) = Inr drive_555"
    by code_simp
  have conv2: "convertGloriaFoodToDrive (uuid (partner_ok ''t2''))
      (request_orderData (order_555 ''delivery'' ''accepted'')) = Inr drive_555"
    by code_simp
  have id1: "request_orderId (order_555 ''delivery'' ''pending'') = ''555''"
    by code_simp
  have key: "order_id_of (request_orderData (order_555 ''delivery'' ''pending''))
      = request_orderId (order_555 ''delivery'' ''pending'')"
    by code_simp
  have same: "request_orderId (order_555 ''delivery'' ''accepted'')
      = request_orderId (order_555 ''delivery'' ''pending'')"
    by code_simp
  have unsent: "\<not> is_sent (database (fresh_server SQLite)) (request_orderId (order_555 ''delivery'' ''pending''))"
    by (simp add: is_sent_def fresh_server_def empty_db_def find_order_def)
  have fails: "failed (post_deliveries (partner_500 ''t1'') drive_555)"
    by (simp add: partner_500_def failed_def)
  have none_posted: "deliveries_posted (fresh_server SQLite) = []"
    by (simp add: fresh_server_def)
  from C4_retry_after_failed_dispatch [OF client e1 e2 refl refl ty1 low ty2 low conv1 conv2 key
      same unsent fails after_failed_dispatch_def]
  show ?thesis
    unfolding id1 none_posted by simp
qed

end
